theory Spec2Isabelle
  imports Complex_Main "HOL-Library.DAList" "HOL-Library.Sublist"
begin

section \<open>Core enums (core/enums.py)\<close>

datatype CaseStatus = OPEN | IN_PROGRESS | AWAITING_INFO | COMPLETE | CANCELLED

datatype CaseType = LOA | GENERAL | ANNUAL_REVIEW

text \<open>The \<open>.value\<close> of a \<open>CaseStatus\<close> member (the enum is a \<open>str\<close> enum).\<close>

fun status_value :: "CaseStatus \<Rightarrow> string" where
  "status_value OPEN = ''OPEN''"
| "status_value IN_PROGRESS = ''IN_PROGRESS''"
| "status_value AWAITING_INFO = ''AWAITING_INFO''"
| "status_value COMPLETE = ''COMPLETE''"
| "status_value CANCELLED = ''CANCELLED''"

section \<open>Exceptions (core/exceptions.py)\<close>

text \<open>
  An exception is modelled by its class and by the text \<open>str(e)\<close> gives. The classes are
  those of core/exceptions.py that the modelled code raises, the pydantic and built-in
  errors the modelled constructors raise, and \<open>BackendError\<close> for whatever an external
  collaborator (the document database, the language model client) raises.
\<close>

datatype exc_class =
    InvalidStateTransitionError
  | ActionExecutionError
  | StorageError
  | CaseNotFoundError
  | ValidationError
  | ValueError
  | AttributeError
  | TypeError
  | BackendError

type_synonym exn = "exc_class \<times> string"

definition str_of_exn :: "exn \<Rightarrow> string" where
  "str_of_exn e = snd e"

section \<open>Case model (core/models.py)\<close>

text \<open>
  A \<open>datetime\<close> is an abstract clock reading. A \<open>float\<close> confidence is a rational: the
  code only compares it with the bounds 0 and 1 and with a threshold.
\<close>

type_synonym timestamp = nat

record FieldValue =
  field_name :: string
  fv_value :: string
  received_at :: timestamp
  source_message_id :: string
  confidence :: rat

text \<open>
  \<open>received_fields\<close> is a Python dict: insertion ordered, one entry per key. It is an
  association list with distinct keys (\<open>DAList\<close>); \<open>d[k] = v\<close> is \<open>DAList.update\<close>, which
  replaces the value in place when the key is present and appends the entry otherwise.
\<close>

record Case =
  cid :: string
  client_name :: string
  case_title :: string
  case_type :: CaseType
  status :: CaseStatus
  required_fields :: "string list"
  received_fields :: "(string, FieldValue) alist"
  created_at :: timestamp
  updated_at :: timestamp
  completed_at :: "timestamp option"
  assigned_to :: "string option"
  tags :: "string list"
  case_notes :: string

definition received_keys :: "Case \<Rightarrow> string list" where
  "received_keys c = map fst (DAList.impl_of (received_fields c))"

definition is_complete :: "Case \<Rightarrow> bool" where
  "is_complete c =
     (if case_type c \<noteq> LOA then status c = COMPLETE
      else set (required_fields c) \<subseteq> set (received_keys c))"

text \<open>
  \<open>list(required - received)\<close>: Python leaves the order of a set's elements open; the
  model lists them in the order of \<open>required_fields\<close>, without repetition.
\<close>

definition get_missing_fields :: "Case \<Rightarrow> string list" where
  "get_missing_fields c =
     remdups (filter (\<lambda>f. f \<notin> set (received_keys c)) (required_fields c))"

definition get_completion_percentage :: "Case \<Rightarrow> rat" where
  "get_completion_percentage c =
     (if required_fields c = [] then 100
      else (of_nat (length (filter (\<lambda>f. f \<in> set (received_keys c)) (required_fields c)))
              / of_nat (length (required_fields c))) * 100)"

section \<open>Case state machine (state/case_state.py)\<close>

fun VALID_TRANSITIONS :: "CaseStatus \<Rightarrow> CaseStatus set" where
  "VALID_TRANSITIONS OPEN = {IN_PROGRESS, CANCELLED}"
| "VALID_TRANSITIONS IN_PROGRESS = {AWAITING_INFO, COMPLETE, CANCELLED}"
| "VALID_TRANSITIONS AWAITING_INFO = {IN_PROGRESS, COMPLETE, CANCELLED}"
| "VALID_TRANSITIONS COMPLETE = {}"
| "VALID_TRANSITIONS CANCELLED = {}"

definition can_transition :: "CaseStatus \<Rightarrow> CaseStatus \<Rightarrow> bool" where
  "can_transition from_status to_status =
     (if from_status = to_status then True
      else to_status \<in> VALID_TRANSITIONS from_status)"

text \<open>The arrow of the message is U+2192, three bytes in UTF-8.\<close>

definition arrow :: string where
  "arrow = [CHR 0xE2, CHR 0x86, CHR 0x92]"

definition validate_transition :: "Case \<Rightarrow> CaseStatus \<Rightarrow> exn option" where
  "validate_transition c new_status =
     (if \<not> can_transition (status c) new_status
      then Some (InvalidStateTransitionError,
                 ''Invalid state transition for case '' @ cid c @ '': ''
                   @ status_value (status c) @ '' '' @ arrow @ '' '' @ status_value new_status)
      else None)"

text \<open>
  \<open>transition\<close> mutates the case it is given and returns it. The model returns the state
  of that object after the call, and the exception when the call raised: a raise leaves
  the object as validation found it. \<open>now\<close> is what \<open>datetime.utcnow()\<close> reads.
\<close>

definition transition :: "Case \<Rightarrow> CaseStatus \<Rightarrow> bool \<Rightarrow> timestamp \<Rightarrow> Case \<times> exn option" where
  "transition c new_status validate now =
     (case (if validate then validate_transition c new_status else None) of
        Some e \<Rightarrow> (c, Some e)
      | None \<Rightarrow>
          (let c1 = c\<lparr>status := new_status\<rparr>;
               c2 = (if new_status = COMPLETE then c1\<lparr>completed_at := Some now\<rparr> else c1)
           in (c2, None)))"

definition should_auto_transition :: "Case \<Rightarrow> CaseStatus option" where
  "should_auto_transition c =
     (if case_type c = LOA then
        (if status c \<in> set [IN_PROGRESS, AWAITING_INFO] then
           (if is_complete c then Some COMPLETE
            else if get_missing_fields c \<noteq> [] then
              (if status c \<noteq> AWAITING_INFO then Some AWAITING_INFO else None)
            else None)
         else None)
      else None)"

definition get_next_states :: "CaseStatus \<Rightarrow> CaseStatus set" where
  "get_next_states current_status = VALID_TRANSITIONS current_status"

definition is_terminal_state :: "CaseStatus \<Rightarrow> bool" where
  "is_terminal_state s = (card (VALID_TRANSITIONS s) = 0)"

section \<open>Field tracker (state/field_tracker.py)\<close>

text \<open>
  The \<open>FieldValue\<close> constructor validates \<open>confidence\<close> against \<open>Field(ge=0.0, le=1.0)\<close>
  and raises a pydantic \<open>ValidationError\<close> outside the bounds; the model keeps the first
  line of its text.
\<close>

definition new_FieldValue ::
  "string \<Rightarrow> string \<Rightarrow> timestamp \<Rightarrow> string \<Rightarrow> rat \<Rightarrow> exn + FieldValue" where
  "new_FieldValue name v now src conf =
     (if 0 \<le> conf \<and> conf \<le> 1
      then Inr \<lparr> field_name = name, fv_value = v, received_at = now,
                 source_message_id = src, confidence = conf \<rparr>
      else Inl (ValidationError, ''1 validation error for FieldValue''))"

text \<open>
  \<open>add_field_value\<close> mutates the case and returns it; as for \<open>transition\<close> the model
  returns the object's state after the call and the exception, if any. Both clock
  readings of one call are the same instant \<open>now\<close>.
\<close>

definition add_field_value ::
  "Case \<Rightarrow> string \<Rightarrow> string \<Rightarrow> string \<Rightarrow> rat \<Rightarrow> timestamp \<Rightarrow> Case \<times> exn option" where
  "add_field_value c name v src conf now =
     (case new_FieldValue name v now src conf of
        Inl e \<Rightarrow> (c, Some e)
      | Inr fv \<Rightarrow>
          (c\<lparr>received_fields := DAList.update name fv (received_fields c),
             updated_at := now\<rparr>, None))"

definition get_received_fields :: "Case \<Rightarrow> string list" where
  "get_received_fields c = received_keys c"

definition is_field_received :: "Case \<Rightarrow> string \<Rightarrow> bool" where
  "is_field_received c name = (name \<in> set (received_keys c))"

text \<open>The entries a case holds under one field name, and under every other name.\<close>

definition entries_named :: "string \<Rightarrow> Case \<Rightarrow> (string \<times> FieldValue) list" where
  "entries_named name c = filter (\<lambda>kv. fst kv = name) (DAList.impl_of (received_fields c))"

definition entries_not_named :: "string \<Rightarrow> Case \<Rightarrow> (string \<times> FieldValue) list" where
  "entries_not_named name c = filter (\<lambda>kv. fst kv \<noteq> name) (DAList.impl_of (received_fields c))"

section \<open>Values, tasks, actions and audit entries (core/models.py)\<close>

text \<open>
  The values a \<open>Dict[str, Any]\<close> of parameters or metadata holds in this program: \<open>None\<close>,
  booleans, strings, lists and dictionaries. A dictionary of this kind is an association
  list, read with \<open>map_of\<close> and written with \<open>AList.update\<close>.
\<close>

datatype pyval =
    PNone
  | PBool bool
  | PStr string
  | PList "pyval list"
  | PDict "(string \<times> pyval) list"

type_synonym pydict = "(string \<times> pyval) list"

fun truthy :: "pyval \<Rightarrow> bool" where
  "truthy PNone = False"
| "truthy (PBool b) = b"
| "truthy (PStr s) = (s \<noteq> [])"
| "truthy (PList xs) = (xs \<noteq> [])"
| "truthy (PDict d) = (d \<noteq> [])"

fun type_name :: "pyval \<Rightarrow> string" where
  "type_name PNone = ''NoneType''"
| "type_name (PBool b) = ''bool''"
| "type_name (PStr s) = ''str''"
| "type_name (PList xs) = ''list''"
| "type_name (PDict d) = ''dict''"

text \<open>\<open>d.get(k, default)\<close>.\<close>

definition dict_get :: "pydict \<Rightarrow> string \<Rightarrow> pyval \<Rightarrow> pyval" where
  "dict_get d k dflt = (case map_of d k of None \<Rightarrow> dflt | Some v \<Rightarrow> v)"

text \<open>Truth of an \<open>Optional[str]\<close>: neither \<open>None\<close> nor the empty string.\<close>

definition truthy_opt :: "string option \<Rightarrow> bool" where
  "truthy_opt s = (case s of None \<Rightarrow> False | Some x \<Rightarrow> x \<noteq> [])"

text \<open>The decimal numeral of a natural number.\<close>

fun decimal :: "nat \<Rightarrow> string" where
  "decimal n =
     (if n < 10 then [''0123456789'' ! n]
      else decimal (n div 10) @ [''0123456789'' ! (n mod 10)])"

declare decimal.simps [simp del]

text \<open>
  The numeral of a clock reading stands for the text of
  \<open>datetime.utcnow().timestamp()\<close> in generated identifiers.
\<close>

definition timestamp_str :: "timestamp \<Rightarrow> string" where
  "timestamp_str now = decimal now"

datatype ActionType =
    CREATE_CASE | UPDATE_CASE | COMPLETE_CASE | CANCEL_CASE
  | CREATE_TASK | COMPLETE_TASK
  | DRAFT_FOLLOWUP_EMAIL | INITIATE_LOA_CHASE
  | IGNORE

fun action_type_value :: "ActionType \<Rightarrow> string" where
  "action_type_value CREATE_CASE = ''CREATE_CASE''"
| "action_type_value UPDATE_CASE = ''UPDATE_CASE''"
| "action_type_value COMPLETE_CASE = ''COMPLETE_CASE''"
| "action_type_value CANCEL_CASE = ''CANCEL_CASE''"
| "action_type_value CREATE_TASK = ''CREATE_TASK''"
| "action_type_value COMPLETE_TASK = ''COMPLETE_TASK''"
| "action_type_value DRAFT_FOLLOWUP_EMAIL = ''DRAFT_FOLLOWUP_EMAIL''"
| "action_type_value INITIATE_LOA_CHASE = ''INITIATE_LOA_CHASE''"
| "action_type_value IGNORE = ''IGNORE''"

record Task =
  tid :: string
  task_case_id :: "string option"
  title :: string
  description :: string
  task_status :: CaseStatus
  task_created_at :: timestamp
  task_updated_at :: timestamp
  task_completed_at :: "timestamp option"
  task_assigned_to :: "string option"
  due_date :: "timestamp option"

record Action =
  aid :: string
  atype :: ActionType
  case_id :: "string option"
  parameters :: pydict
  triggered_by :: string
  action_created_at :: timestamp
  executed_at :: "timestamp option"
  success :: "bool option"
  error_message :: "string option"

text \<open>
  The before and after states of an audit entry are dictionaries: the \<open>model_dump()\<close> of a
  case or of a task, or a dictionary written out in the handler. \<open>Dict []\<close> is \<open>{}\<close>.
\<close>

datatype snapshot = Dump_case Case | Dump_task Task | Dict pydict

record AuditLog =
  log_id :: string
  log_timestamp :: timestamp
  log_case_id :: string
  action_type :: ActionType
  before_state :: snapshot
  after_state :: snapshot
  log_triggered_by :: string
  log_success :: bool
  log_error_message :: "string option"
  log_metadata :: pydict

section \<open>The document database and the clock\<close>

text \<open>
  The state outside the program. A collection is the list of its documents with their
  identifiers, in the order the database streams them; writing a document replaces the
  one with its identifier or adds it at the end. The audit collection is the list of the
  entries written, oldest first: the identifier a new entry takes from the clock is
  taken to be fresh. \<open>clock\<close> is what \<open>datetime.utcnow()\<close> reads; it stands still
  during one operation.

  A call to the database can raise. \<open>case_faults\<close> and \<open>audit_faults\<close> give, call by
  call, the outcome of the calls the case repository and the audit repository will
  make: \<open>None\<close> lets the call through, \<open>Some m\<close> makes it raise with text \<open>m\<close>; past the end
  of the list every call goes through.
\<close>

record world =
  cases :: "(string \<times> Case) list"
  case_tasks :: "((string \<times> string) \<times> Task) list"
  tasks :: "(string \<times> Task) list"
  audit_logs :: "AuditLog list"
  clock :: timestamp
  case_faults :: "string option list"
  audit_faults :: "string option list"

definition raised :: "string option \<Rightarrow> exn option" where
  "raised f = map_option (\<lambda>m. (BackendError, m)) f"

definition case_db_call :: "world \<Rightarrow> exn option \<times> world" where
  "case_db_call w =
     (case case_faults w of
        [] \<Rightarrow> (None, w)
      | f # rest \<Rightarrow> (raised f, w\<lparr>case_faults := rest\<rparr>))"

definition audit_db_call :: "world \<Rightarrow> exn option \<times> world" where
  "audit_db_call w =
     (case audit_faults w of
        [] \<Rightarrow> (None, w)
      | f # rest \<Rightarrow> (raised f, w\<lparr>audit_faults := rest\<rparr>))"

section \<open>Case repository (storage/case_repository.py)\<close>

definition create_case :: "Case \<Rightarrow> world \<Rightarrow> (exn + Case) \<times> world" where
  "create_case c w =
     (let c1 = (if cid c = [] then c\<lparr>cid := ''case_'' @ timestamp_str (clock w)\<rparr> else c)
      in case case_db_call w of
           (Some e, w1) \<Rightarrow> (Inl (StorageError, ''Failed to create case: '' @ str_of_exn e), w1)
         | (None, w1) \<Rightarrow> (Inr c1, w1\<lparr>cases := AList.update (cid c1) c1 (cases w1)\<rparr>))"

definition get_case :: "string \<Rightarrow> world \<Rightarrow> (exn + Case) \<times> world" where
  "get_case i w =
     (case case_db_call w of
        (Some e, w1) \<Rightarrow> (Inl (StorageError, ''Failed to get case: '' @ str_of_exn e), w1)
      | (None, w1) \<Rightarrow>
          (case map_of (cases w1) i of
             None \<Rightarrow> (Inl (CaseNotFoundError, ''Case not found: '' @ i), w1)
           | Some c \<Rightarrow> (Inr c, w1)))"

definition update_case :: "Case \<Rightarrow> world \<Rightarrow> (exn + Case) \<times> world" where
  "update_case c w =
     (case get_case (cid c) w of
        (Inl e, w1) \<Rightarrow> (Inl (StorageError, ''Failed to update case: '' @ str_of_exn e), w1)
      | (Inr existing, w1) \<Rightarrow>
          (let c1 = c\<lparr>updated_at := clock w1\<rparr>
           in case case_db_call w1 of
                (Some e, w2) \<Rightarrow>
                  (Inl (StorageError, ''Failed to update case: '' @ str_of_exn e), w2)
              | (None, w2) \<Rightarrow>
                  (Inr c1, w2\<lparr>cases := AList.update (cid c1) c1 (cases w2)\<rparr>)))"

definition open_statuses :: "CaseStatus list" where
  "open_statuses = [OPEN, IN_PROGRESS, AWAITING_INFO]"

definition find_case_by_client_and_title ::
  "string \<Rightarrow> string option \<Rightarrow> world \<Rightarrow> (exn + Case option) \<times> world" where
  "find_case_by_client_and_title client title_opt w =
     (case case_db_call w of
        (Some e, w1) \<Rightarrow> (Inl (StorageError, ''Failed to find case: '' @ str_of_exn e), w1)
      | (None, w1) \<Rightarrow>
          (Inr (find (\<lambda>c. client_name c = client
                        \<and> (if truthy_opt title_opt then Some (case_title c) = title_opt else True)
                        \<and> status c \<in> set open_statuses)
                  (map snd (cases w1))), w1))"

definition add_field_to_case :: "string \<Rightarrow> FieldValue \<Rightarrow> world \<Rightarrow> (exn + Case) \<times> world" where
  "add_field_to_case i fv w =
     (case get_case i w of
        (Inl e, w1) \<Rightarrow> (Inl e, w1)
      | (Inr c, w1) \<Rightarrow>
          (let c1 = c\<lparr>received_fields := DAList.update (field_name fv) fv (received_fields c),
                      updated_at := clock w1\<rparr>;
               c2 = (if is_complete c1 \<and> status c1 \<noteq> COMPLETE
                     then c1\<lparr>status := COMPLETE, completed_at := Some (clock w1)\<rparr>
                     else c1)
           in update_case c2 w1))"

text \<open>
  The case \<open>add_field_to_case\<close> hands to \<open>update_case\<close> once it has stored the field and
  found the case complete: the field is in, the status is complete and the completion
  time is the clock reading.
\<close>

definition completed_with :: "Case \<Rightarrow> FieldValue \<Rightarrow> timestamp \<Rightarrow> Case" where
  "completed_with c fv now =
     c\<lparr>received_fields := DAList.update (field_name fv) fv (received_fields c),
       updated_at := now, status := COMPLETE, completed_at := Some now\<rparr>"

text \<open>Where a task is stored: under its case when it has one, in the top collection otherwise.\<close>

definition store_task :: "Task \<Rightarrow> world \<Rightarrow> world" where
  "store_task t w =
     (case task_case_id t of
        Some i \<Rightarrow>
          (if i \<noteq> [] then w\<lparr>case_tasks := AList.update (i, tid t) t (case_tasks w)\<rparr>
           else w\<lparr>tasks := AList.update (tid t) t (tasks w)\<rparr>)
      | None \<Rightarrow> w\<lparr>tasks := AList.update (tid t) t (tasks w)\<rparr>)"

definition create_task :: "Task \<Rightarrow> world \<Rightarrow> (exn + Task) \<times> world" where
  "create_task t w =
     (let t1 = (if tid t = [] then t\<lparr>tid := ''task_'' @ timestamp_str (clock w)\<rparr> else t)
      in case case_db_call w of
           (Some e, w1) \<Rightarrow> (Inl (StorageError, ''Failed to create task: '' @ str_of_exn e), w1)
         | (None, w1) \<Rightarrow> (Inr t1, store_task t1 w1))"

definition update_task :: "Task \<Rightarrow> world \<Rightarrow> (exn + Task) \<times> world" where
  "update_task t w =
     (let t1 = t\<lparr>task_updated_at := clock w\<rparr>
      in case case_db_call w of
           (Some e, w1) \<Rightarrow> (Inl (StorageError, ''Failed to update task: '' @ str_of_exn e), w1)
         | (None, w1) \<Rightarrow> (Inr t1, store_task t1 w1))"

definition find_task_by_title ::
  "string \<Rightarrow> string option \<Rightarrow> world \<Rightarrow> (exn + Task option) \<times> world" where
  "find_task_by_title task_title i w =
     (case case_db_call w of
        (Some e, w1) \<Rightarrow> (Inl (StorageError, ''Failed to find task: '' @ str_of_exn e), w1)
      | (None, w1) \<Rightarrow>
          (let docs = (if truthy_opt i
                       then map snd (filter (\<lambda>kv. Some (fst (fst kv)) = i) (case_tasks w1))
                       else map snd (tasks w1))
           in (Inr (find (\<lambda>t. title t = task_title \<and> task_status t \<noteq> COMPLETE) docs), w1)))"

section \<open>Audit repository (storage/audit_repository.py)\<close>

definition audit_repo_log_action :: "AuditLog \<Rightarrow> world \<Rightarrow> (exn + AuditLog) \<times> world" where
  "audit_repo_log_action l w =
     (let l1 = (if log_id l = [] then l\<lparr>log_id := ''audit_'' @ timestamp_str (clock w)\<rparr> else l)
      in case audit_db_call w of
           (Some e, w1) \<Rightarrow> (Inl (StorageError, ''Failed to log action: '' @ str_of_exn e), w1)
         | (None, w1) \<Rightarrow> (Inr l1, w1\<lparr>audit_logs := audit_logs w1 @ [l1]\<rparr>))"

section \<open>Messages (core/models.py)\<close>

datatype SourceType = EMAIL | TEAMS | TRANSCRIPT | DOCUMENT | UNKNOWN

datatype ProcessingStatus = PENDING | PROCESSING | PROCESSED | FAILED | SKIPPED

datatype MessageCategory =
  CLIENT_TASK | LOA_CHASE | LOA_MISSING_INFO | LOA_RESPONSE | ADMIN | IRRELEVANT

text \<open>
  The content variants with the fields the modelled code reads: an email's addresses,
  subject and body; the (author, text) pairs of a chat; the (speaker, text) turns of a
  transcript; a document's title and text.
\<close>

datatype MessageContent =
    EmailContent (from_address: string) (to_address: string) (subject: string) (body: string)
  | TeamsContent (chat_messages: "(string \<times> string) list")
  | TranscriptContent (transcript_turns: "(string \<times> string) list")
  | DocumentContent (document_title: string) (document_text: string)

record Message =
  mid :: string
  msg_timestamp :: timestamp
  source_type :: SourceType
  content :: MessageContent
  metadata :: pydict
  processing_status :: ProcessingStatus

definition newline :: string where
  "newline = [CHR 0x0A]"

text \<open>\<open>sep.join(xs)\<close>.\<close>

fun join :: "string \<Rightarrow> string list \<Rightarrow> string" where
  "join sep [] = []"
| "join sep [x] = x"
| "join sep (x # y # ys) = x @ sep @ join sep (y # ys)"

definition get_text_content :: "Message \<Rightarrow> string" where
  "get_text_content m =
     (case content m of
        EmailContent f t s b \<Rightarrow> s @ newline @ b
      | TeamsContent msgs \<Rightarrow> join newline (map (\<lambda>(author, text). author @ '': '' @ text) msgs)
      | TranscriptContent turns \<Rightarrow>
          join newline (map (\<lambda>(speaker, text). speaker @ '': '' @ text) turns)
      | DocumentContent t x \<Rightarrow> t @ newline @ x)"

text \<open>
  A string is the UTF-8 bytes of the Python \<open>str\<close>. \<open>str.lower()\<close> follows the Unicode
  case tables of the Python runtime; it is not defined here but taken as a parameter
  (\<open>str_lower\<close> of the pre-filter, \<open>low\<close> of the heuristic classification), so that what is
  proved holds for Python's own lowering.

  \<open>k in text\<close> on strings: \<open>k\<close> occurs in \<open>text\<close> as a contiguous piece. One valid UTF-8
  text occurs in another as bytes exactly when it does as code points.
\<close>

definition str_in :: "string \<Rightarrow> string \<Rightarrow> bool" where
  "str_in k text = sublist k text"

section \<open>Pre-filter (pipeline/pre_filter.py)\<close>

text \<open>A keyword or domain set is given by a list of its elements.\<close>

definition SPAM_KEYWORDS :: "string list" where
  "SPAM_KEYWORDS =
     [''unsubscribe'', ''newsletter'', ''marketing'', ''promotion'',
      ''discount'', ''sale'', ''offer'', ''click here'', ''buy now'']"

definition RELEVANT_KEYWORDS :: "string list" where
  "RELEVANT_KEYWORDS =
     [''loa'', ''letter of authority'', ''policy'', ''plan number'',
      ''valuation'', ''pension'', ''investment'', ''platform'',
      ''client'', ''case'', ''annual review'', ''dob'', ''date of birth'',
      ''ni number'', ''national insurance'']"

definition SPAM_DOMAINS :: "string list" where
  "SPAM_DOMAINS = [''newsletter.com'', ''marketing.com'', ''randomcorp.com'']"

definition WHITELIST_DOMAINS :: "string list" where
  "WHITELIST_DOMAINS = [''firm.com'', ''example.com'', ''abcplatform.com'']"

text \<open>
  The four sets of the filter object, and \<open>str_lower\<close>: the \<open>str.lower\<close> of the runtime the
  filter runs on, the parameter its methods lower text with.
\<close>

record PreFilter =
  spam_keywords :: "string list"
  relevant_keywords :: "string list"
  spam_domains :: "string list"
  whitelist_domains :: "string list"
  str_lower :: "string \<Rightarrow> string"

text \<open>\<open>given or DEFAULT\<close>: an argument that is \<open>None\<close> or empty gives way to the default.\<close>

definition or_default :: "string list option \<Rightarrow> string list \<Rightarrow> string list" where
  "or_default given dflt =
     (case given of None \<Rightarrow> dflt | Some xs \<Rightarrow> (if xs = [] then dflt else xs))"

definition new_PreFilter ::
  "(string \<Rightarrow> string) \<Rightarrow> string list option \<Rightarrow> string list option \<Rightarrow> string list option
     \<Rightarrow> string list option \<Rightarrow> PreFilter" where
  "new_PreFilter low sk rk sd wd =
     \<lparr> spam_keywords = or_default sk SPAM_KEYWORDS,
       relevant_keywords = or_default rk RELEVANT_KEYWORDS,
       spam_domains = or_default sd SPAM_DOMAINS,
       whitelist_domains = or_default wd WHITELIST_DOMAINS,
       str_lower = low \<rparr>"

text \<open>\<open>sum(1 for keyword in keywords if keyword in text)\<close> over a set of keywords.\<close>

definition keyword_score :: "string list \<Rightarrow> string \<Rightarrow> nat" where
  "keyword_score keywords text = length (filter (\<lambda>k. str_in k text) (remdups keywords))"

text \<open>\<open>any(domain in from_address for domain in domains)\<close>.\<close>

definition any_domain_in :: "string list \<Rightarrow> string \<Rightarrow> bool" where
  "any_domain_in domains addr = list_ex (\<lambda>d. str_in d addr) domains"

text \<open>The keyword checks \<open>should_process\<close> reaches when no domain rule has answered.\<close>

definition keyword_checks :: "PreFilter \<Rightarrow> string \<Rightarrow> bool" where
  "keyword_checks pf text =
     (if 2 \<le> keyword_score (spam_keywords pf) text then False
      else if 1 \<le> keyword_score (relevant_keywords pf) text then True
      else True)"

definition should_process :: "PreFilter \<Rightarrow> Message \<Rightarrow> bool" where
  "should_process pf m =
     (let text = str_lower pf (get_text_content m)
      in case content m of
           EmailContent f t s b \<Rightarrow>
             (let addr = str_lower pf f
              in if any_domain_in (whitelist_domains pf) addr then True
                 else if any_domain_in (spam_domains pf) addr then False
                 else keyword_checks pf text)
         | TeamsContent c \<Rightarrow> keyword_checks pf text
         | TranscriptContent c \<Rightarrow> keyword_checks pf text
         | DocumentContent t x \<Rightarrow> keyword_checks pf text)"

text \<open>
  What the rules of \<open>should_process\<close> test: whether the message has a sender address that
  matches the whitelist, one that matches the blacklist, and the two keyword scores.
\<close>

definition whitelisted :: "PreFilter \<Rightarrow> Message \<Rightarrow> bool" where
  "whitelisted pf m =
     (case content m of
        EmailContent f t s b \<Rightarrow> any_domain_in (whitelist_domains pf) (str_lower pf f)
      | TeamsContent c \<Rightarrow> False
      | TranscriptContent c \<Rightarrow> False
      | DocumentContent t x \<Rightarrow> False)"

definition blacklisted :: "PreFilter \<Rightarrow> Message \<Rightarrow> bool" where
  "blacklisted pf m =
     (case content m of
        EmailContent f t s b \<Rightarrow> any_domain_in (spam_domains pf) (str_lower pf f)
      | TeamsContent c \<Rightarrow> False
      | TranscriptContent c \<Rightarrow> False
      | DocumentContent t x \<Rightarrow> False)"

definition spam_score :: "PreFilter \<Rightarrow> Message \<Rightarrow> nat" where
  "spam_score pf m = keyword_score (spam_keywords pf) (str_lower pf (get_text_content m))"

definition relevant_score :: "PreFilter \<Rightarrow> Message \<Rightarrow> nat" where
  "relevant_score pf m =
     keyword_score (relevant_keywords pf) (str_lower pf (get_text_content m))"

section \<open>Formatting and validation of parameter values\<close>

text \<open>
  \<open>str(v)\<close> and \<open>repr(v)\<close>, as an f-string applies them. The \<open>repr\<close> of a string is the
  string between single quotes: quotes, backslashes and control characters inside it,
  which Python escapes, are not treated.
\<close>

fun py_repr :: "pyval \<Rightarrow> string" where
  "py_repr PNone = ''None''"
| "py_repr (PBool b) = (if b then ''True'' else ''False'')"
| "py_repr (PStr s) = [CHR 0x27] @ s @ [CHR 0x27]"
| "py_repr (PList xs) = ''['' @ join '', '' (map py_repr xs) @ '']''"
| "py_repr (PDict d) =
     ''{'' @ join '', '' (map (\<lambda>kv. [CHR 0x27] @ fst kv @ [CHR 0x27] @ '': '' @ py_repr (snd kv)) d)
       @ ''}''"

definition py_str :: "pyval \<Rightarrow> string" where
  "py_str v = (case v of PStr s \<Rightarrow> s | _ \<Rightarrow> py_repr v)"

definition no_attribute :: "pyval \<Rightarrow> string \<Rightarrow> exn" where
  "no_attribute v name =
     (AttributeError,
      [CHR 0x27] @ type_name v @ [CHR 0x27] @ '' object has no attribute ''
        @ [CHR 0x27] @ name @ [CHR 0x27])"

text \<open>
  pydantic validation of a constructor's arguments. A \<open>str\<close> field takes a string only; a
  \<open>List[str]\<close> field takes a list of strings. The error counts the offending fields and
  list items; the model keeps the first line of its text.
\<close>

definition str_errors :: "pyval \<Rightarrow> nat" where
  "str_errors v = (case v of PStr s \<Rightarrow> 0 | _ \<Rightarrow> 1)"

definition str_list_errors :: "pyval \<Rightarrow> nat" where
  "str_list_errors v =
     (case v of PList xs \<Rightarrow> length (filter (\<lambda>x. str_errors x = 1) xs) | _ \<Rightarrow> 1)"

definition the_str :: "pyval \<Rightarrow> string" where
  "the_str v = (case v of PStr s \<Rightarrow> s | _ \<Rightarrow> [])"

definition the_str_list :: "pyval \<Rightarrow> string list" where
  "the_str_list v = (case v of PList xs \<Rightarrow> map the_str xs | _ \<Rightarrow> [])"

definition validation_error :: "nat \<Rightarrow> string \<Rightarrow> exn" where
  "validation_error n model =
     (ValidationError,
      decimal n @ (if n = 1 then '' validation error for '' else '' validation errors for '')
        @ model)"

text \<open>
  \<open>Case(id=..., client_name=..., case_title=..., case_type=..., status=..., required_fields=...,
  notes=...)\<close> as \<open>_create_case\<close> calls it; the other fields take their defaults.
\<close>

definition new_Case ::
  "string \<Rightarrow> pyval \<Rightarrow> pyval \<Rightarrow> CaseType \<Rightarrow> CaseStatus \<Rightarrow> pyval \<Rightarrow> pyval \<Rightarrow> timestamp
     \<Rightarrow> exn + Case" where
  "new_Case i name ttl ct st required nts now =
     (let n = str_errors name + str_errors ttl + str_list_errors required + str_errors nts
      in if n = 0
         then Inr \<lparr> cid = i, client_name = the_str name, case_title = the_str ttl,
                    case_type = ct, status = st, required_fields = the_str_list required,
                    received_fields = DAList.empty, created_at = now, updated_at = now,
                    completed_at = None, assigned_to = None, tags = [],
                    case_notes = the_str nts \<rparr>
         else Inl (validation_error n ''Case''))"

text \<open>\<open>Task(id=..., case_id=..., title=..., description=..., status=...)\<close> as \<open>_create_task\<close> calls it.\<close>

definition new_Task ::
  "string \<Rightarrow> string option \<Rightarrow> pyval \<Rightarrow> pyval \<Rightarrow> CaseStatus \<Rightarrow> timestamp \<Rightarrow> exn + Task" where
  "new_Task i owner ttl descr st now =
     (let n = str_errors ttl + str_errors descr
      in if n = 0
         then Inr \<lparr> tid = i, task_case_id = owner, title = the_str ttl,
                    description = the_str descr, task_status = st, task_created_at = now,
                    task_updated_at = now, task_completed_at = None,
                    task_assigned_to = None, due_date = None \<rparr>
         else Inl (validation_error n ''Task''))"

text \<open>\<open>CaseType(s)\<close>: the member with that value, or a \<open>ValueError\<close>.\<close>

definition parse_CaseType :: "pyval \<Rightarrow> exn + CaseType" where
  "parse_CaseType v =
     (if v = PStr ''loa'' then Inr LOA
      else if v = PStr ''general'' then Inr GENERAL
      else if v = PStr ''annual_review'' then Inr ANNUAL_REVIEW
      else Inl (ValueError, py_repr v @ '' is not a valid CaseType''))"

text \<open>\<open>s.replace(' ', '_')\<close>.\<close>

definition replace_spaces :: "string \<Rightarrow> string" where
  "replace_spaces s = map (\<lambda>c. if c = CHR '' '' then CHR ''_'' else c) s"

section \<open>Action handlers: the shared part (actions/base.py)\<close>

definition log_action ::
  "Action \<Rightarrow> bool \<Rightarrow> snapshot \<Rightarrow> snapshot \<Rightarrow> string option \<Rightarrow> world \<Rightarrow> exn option \<times> world" where
  "log_action a ok before after err w =
     (let audit_log =
        \<lparr> log_id = ''audit_'' @ timestamp_str (clock w),
          log_timestamp = clock w,
          log_case_id =
            (if truthy_opt (case_id a) then (case case_id a of Some i \<Rightarrow> i | None \<Rightarrow> [])
             else ''unknown''),
          action_type = atype a,
          before_state = before,
          after_state = after,
          log_triggered_by = triggered_by a,
          log_success = ok,
          log_error_message = err,
          log_metadata = [(''action_id'', PStr (aid a))] \<rparr>
      in case audit_repo_log_action audit_log w of
           (Inl e, w1) \<Rightarrow> (Some e, w1)
         | (Inr l, w1) \<Rightarrow> (None, w1))"

text \<open>
  The \<open>except Exception as e\<close> clause every handler ends with: write a failed audit entry
  with empty states and the text of \<open>e\<close>, then raise an \<open>ActionExecutionError\<close> whose text
  is the handler's prefix followed by the text of \<open>e\<close>. An exception raised while the
  entry is written leaves the clause instead.
\<close>

definition except_clause ::
  "string \<Rightarrow> exn \<Rightarrow> Action \<Rightarrow> world \<Rightarrow> (exn + bool) \<times> Action \<times> world" where
  "except_clause pfx e a w =
     (case log_action a False (Dict []) (Dict []) (Some (str_of_exn e)) w of
        (Some e2, w1) \<Rightarrow> (Inl e2, a, w1)
      | (None, w1) \<Rightarrow> (Inl (ActionExecutionError, pfx @ str_of_exn e), a, w1))"

text \<open>
  A handler's \<open>try\<close> block gives its outcome, the action as the block left it and the
  world; \<open>guarded\<close> passes a return through and hands an exception to the \<open>except\<close> clause.
\<close>

definition guarded ::
  "string \<Rightarrow> (exn + bool) \<times> Action \<times> world \<Rightarrow> (exn + bool) \<times> Action \<times> world" where
  "guarded pfx r =
     (case r of
        (Inr b, a, w) \<Rightarrow> (Inr b, a, w)
      | (Inl e, a, w) \<Rightarrow> except_clause pfx e a w)"

text \<open>The end of every \<open>try\<close> block: write the audit entry of the executed action, return true.\<close>

definition finish ::
  "Action \<Rightarrow> snapshot \<Rightarrow> snapshot \<Rightarrow> world \<Rightarrow> (exn + bool) \<times> Action \<times> world" where
  "finish a before after w =
     (case log_action a True before after None w of
        (Some e, w1) \<Rightarrow> (Inl e, a, w1)
      | (None, w1) \<Rightarrow> (Inr True, a, w1))"

definition mark_executed :: "Action \<Rightarrow> world \<Rightarrow> Action" where
  "mark_executed a w = a\<lparr>success := Some True, executed_at := Some (clock w)\<rparr>"

section \<open>Case actions (actions/case_actions.py)\<close>

text \<open>
  Each handler is its \<open>try\<close> block, a function \<open>..._body\<close>, under \<open>guarded\<close>. The client
  name is read from the parameters three times, with the defaults \<open>'unknown'\<close> for the
  identifier and \<open>'Unknown'\<close> for the name and the title; \<open>.replace\<close> on the first reading
  raises unless the value is a string, so the later readings format a string.
\<close>

definition create_case_body :: "Action \<Rightarrow> world \<Rightarrow> (exn + bool) \<times> Action \<times> world" where
  "create_case_body a w =
     (let params = parameters a
      in case dict_get params ''client_name'' (PStr ''unknown'') of
           PStr nm \<Rightarrow>
             (let new_id = ''case_'' @ timestamp_str (clock w) @ ''_'' @ replace_spaces nm;
                  case_type_str = dict_get params ''case_type'' (PStr ''general'')
              in case (if truthy case_type_str then parse_CaseType case_type_str
                       else Inr GENERAL) of
                   Inl e \<Rightarrow> (Inl e, a, w)
                 | Inr ct \<Rightarrow>
                     (case new_Case new_id
                             (dict_get params ''client_name'' (PStr ''Unknown''))
                             (dict_get params ''case_title''
                                (PStr (''Case: ''
                                   @ py_str (dict_get params ''client_name'' (PStr ''Unknown'')))))
                             ct OPEN
                             (dict_get params ''required_fields'' (PList []))
                             (dict_get params ''notes'' (PStr []))
                             (clock w) of
                        Inl e \<Rightarrow> (Inl e, a, w)
                      | Inr c \<Rightarrow>
                          (case create_case c w of
                             (Inl e, w1) \<Rightarrow> (Inl e, a, w1)
                           | (Inr created, w1) \<Rightarrow>
                               (let a1 = mark_executed (a\<lparr>case_id := Some (cid created)\<rparr>) w1
                                in finish a1 (Dict []) (Dump_case created) w1))))
         | PNone \<Rightarrow> (Inl (no_attribute PNone ''replace''), a, w)
         | PBool b \<Rightarrow> (Inl (no_attribute (PBool b) ''replace''), a, w)
         | PList xs \<Rightarrow> (Inl (no_attribute (PList xs) ''replace''), a, w)
         | PDict d \<Rightarrow> (Inl (no_attribute (PDict d) ''replace''), a, w))"

definition create_case_action :: "Action \<Rightarrow> world \<Rightarrow> (exn + bool) \<times> Action \<times> world" where
  "create_case_action a w = guarded ''Failed to create case: '' (create_case_body a w)"

text \<open>
  The loop of \<open>_update_case\<close> over \<open>field_updates.items()\<close>: each value must be a string for
  the \<open>FieldValue\<close> constructor; the first exception ends the loop.
\<close>

fun add_fields :: "Case \<Rightarrow> (string \<times> pyval) list \<Rightarrow> string \<Rightarrow> timestamp \<Rightarrow> exn + Case" where
  "add_fields c [] src now = Inr c"
| "add_fields c ((k, v) # rest) src now =
     (case v of
        PStr s \<Rightarrow>
          (case add_field_value c k s src 1 now of
             (c1, Some e) \<Rightarrow> Inl e
           | (c1, None) \<Rightarrow> add_fields c1 rest src now)
      | PNone \<Rightarrow> Inl (validation_error 1 ''FieldValue'')
      | PBool b \<Rightarrow> Inl (validation_error 1 ''FieldValue'')
      | PList xs \<Rightarrow> Inl (validation_error 1 ''FieldValue'')
      | PDict d \<Rightarrow> Inl (validation_error 1 ''FieldValue''))"

text \<open>The transition steps of the handlers: apply it to the case in hand or raise.\<close>

definition transition_to :: "Case \<Rightarrow> CaseStatus \<Rightarrow> timestamp \<Rightarrow> exn + Case" where
  "transition_to c new_status now =
     (case transition c new_status True now of
        (c1, Some e) \<Rightarrow> Inl e
      | (c1, None) \<Rightarrow> Inr c1)"

definition update_case_body :: "Action \<Rightarrow> world \<Rightarrow> (exn + bool) \<times> Action \<times> world" where
  "update_case_body a w =
     (if \<not> truthy_opt (case_id a)
      then (Inl (ActionExecutionError, ''Case ID required for UPDATE_CASE action''), a, w)
      else
        (case get_case (case case_id a of Some i \<Rightarrow> i | None \<Rightarrow> []) w of
           (Inl e, w1) \<Rightarrow> (Inl e, a, w1)
         | (Inr c, w1) \<Rightarrow>
             (case (case dict_get (parameters a) ''field_updates'' (PDict []) of
                      PDict d \<Rightarrow> add_fields c d (triggered_by a) (clock w1)
                    | PNone \<Rightarrow> Inl (no_attribute PNone ''items'')
                    | PBool b \<Rightarrow> Inl (no_attribute (PBool b) ''items'')
                    | PStr s \<Rightarrow> Inl (no_attribute (PStr s) ''items'')
                    | PList xs \<Rightarrow> Inl (no_attribute (PList xs) ''items'')) of
                Inl e \<Rightarrow> (Inl e, a, w1)
              | Inr c1 \<Rightarrow>
                  (case (case should_auto_transition c1 of
                           Some new_status \<Rightarrow> transition_to c1 new_status (clock w1)
                         | None \<Rightarrow> Inr c1) of
                     Inl e \<Rightarrow> (Inl e, a, w1)
                   | Inr c2 \<Rightarrow>
                       (case update_case c2 w1 of
                          (Inl e, w2) \<Rightarrow> (Inl e, a, w2)
                        | (Inr updated, w2) \<Rightarrow>
                            finish (mark_executed a w2) (Dump_case c) (Dump_case updated) w2)))))"

definition update_case_action :: "Action \<Rightarrow> world \<Rightarrow> (exn + bool) \<times> Action \<times> world" where
  "update_case_action a w = guarded ''Failed to update case: '' (update_case_body a w)"

text \<open>
  The statuses \<open>_complete_case\<close> takes the case through, one validated transition each:
  in-progress first when the case is open, in-progress when it is (then) awaiting
  information, and complete.
\<close>

definition complete_case_steps :: "Case \<Rightarrow> timestamp \<Rightarrow> exn + Case" where
  "complete_case_steps c now =
     (case (if status c = OPEN then transition_to c IN_PROGRESS now else Inr c) of
        Inl e \<Rightarrow> Inl e
      | Inr c1 \<Rightarrow>
          (case (if status c1 = AWAITING_INFO then transition_to c1 IN_PROGRESS now
                 else Inr c1) of
             Inl e \<Rightarrow> Inl e
           | Inr c2 \<Rightarrow> transition_to c2 COMPLETE now))"

definition complete_case_body :: "Action \<Rightarrow> world \<Rightarrow> (exn + bool) \<times> Action \<times> world" where
  "complete_case_body a w =
     (if \<not> truthy_opt (case_id a)
      then (Inl (ActionExecutionError, ''Case ID required for COMPLETE_CASE action''), a, w)
      else
        (case get_case (case case_id a of Some i \<Rightarrow> i | None \<Rightarrow> []) w of
           (Inl e, w1) \<Rightarrow> (Inl e, a, w1)
         | (Inr c, w1) \<Rightarrow>
             (case complete_case_steps c (clock w1) of
                Inl e \<Rightarrow> (Inl e, a, w1)
              | Inr c1 \<Rightarrow>
                  (case update_case c1 w1 of
                     (Inl e, w2) \<Rightarrow> (Inl e, a, w2)
                   | (Inr updated, w2) \<Rightarrow>
                       finish (mark_executed a w2) (Dump_case c) (Dump_case updated) w2))))"

definition complete_case_action :: "Action \<Rightarrow> world \<Rightarrow> (exn + bool) \<times> Action \<times> world" where
  "complete_case_action a w = guarded ''Failed to complete case: '' (complete_case_body a w)"

definition cancel_case_body :: "Action \<Rightarrow> world \<Rightarrow> (exn + bool) \<times> Action \<times> world" where
  "cancel_case_body a w =
     (if \<not> truthy_opt (case_id a)
      then (Inl (ActionExecutionError, ''Case ID required for CANCEL_CASE action''), a, w)
      else
        (case get_case (case case_id a of Some i \<Rightarrow> i | None \<Rightarrow> []) w of
           (Inl e, w1) \<Rightarrow> (Inl e, a, w1)
         | (Inr c, w1) \<Rightarrow>
             (case transition_to c CANCELLED (clock w1) of
                Inl e \<Rightarrow> (Inl e, a, w1)
              | Inr c1 \<Rightarrow>
                  (case update_case c1 w1 of
                     (Inl e, w2) \<Rightarrow> (Inl e, a, w2)
                   | (Inr updated, w2) \<Rightarrow>
                       finish (mark_executed a w2) (Dump_case c) (Dump_case updated) w2))))"

definition cancel_case_action :: "Action \<Rightarrow> world \<Rightarrow> (exn + bool) \<times> Action \<times> world" where
  "cancel_case_action a w = guarded ''Failed to cancel case: '' (cancel_case_body a w)"

text \<open>The text of an action type in a message: \<open>ActionType.\<close> and the member's name.\<close>

definition unsupported :: "Action \<Rightarrow> exn" where
  "unsupported a =
     (ActionExecutionError,
      ''Unsupported action type: ActionType.'' @ action_type_value (atype a))"

definition case_handler_execute :: "Action \<Rightarrow> world \<Rightarrow> (exn + bool) \<times> Action \<times> world" where
  "case_handler_execute a w =
     (if atype a = CREATE_CASE then create_case_action a w
      else if atype a = UPDATE_CASE then update_case_action a w
      else if atype a = COMPLETE_CASE then complete_case_action a w
      else if atype a = CANCEL_CASE then cancel_case_action a w
      else (Inl (unsupported a), a, w))"

section \<open>Task actions (actions/task_actions.py)\<close>

definition create_task_body :: "Action \<Rightarrow> world \<Rightarrow> (exn + bool) \<times> Action \<times> world" where
  "create_task_body a w =
     (let params = parameters a;
          task_id = ''task_'' @ timestamp_str (clock w)
      in case new_Task task_id (case_id a)
                (dict_get params ''task_title'' (PStr ''Unnamed Task''))
                (dict_get params ''task_description'' (PStr []))
                OPEN (clock w) of
           Inl e \<Rightarrow> (Inl e, a, w)
         | Inr t \<Rightarrow>
             (case create_task t w of
                (Inl e, w1) \<Rightarrow> (Inl e, a, w1)
              | (Inr created, w1) \<Rightarrow>
                  (let a1 = (mark_executed a w1)
                              \<lparr>parameters :=
                                 AList.update ''task_id'' (PStr (tid created)) (parameters a)\<rparr>
                   in finish a1 (Dict []) (Dump_task created) w1)))"

definition create_task_action :: "Action \<Rightarrow> world \<Rightarrow> (exn + bool) \<times> Action \<times> world" where
  "create_task_action a w = guarded ''Failed to create task: '' (create_task_body a w)"

text \<open>
  The title handed to \<open>find_task_by_title\<close> is compared with the stored titles, which
  are strings: a value of another type finds no task.
\<close>

definition find_task :: "pyval \<Rightarrow> string option \<Rightarrow> world \<Rightarrow> (exn + Task option) \<times> world" where
  "find_task task_title i w =
     (case task_title of
        PStr s \<Rightarrow> find_task_by_title s i w
      | _ \<Rightarrow>
          (case case_db_call w of
             (Some e, w1) \<Rightarrow> (Inl (StorageError, ''Failed to find task: '' @ str_of_exn e), w1)
           | (None, w1) \<Rightarrow> (Inr None, w1)))"

definition complete_task_body :: "Action \<Rightarrow> world \<Rightarrow> (exn + bool) \<times> Action \<times> world" where
  "complete_task_body a w =
     (let task_title = dict_get (parameters a) ''task_title'' PNone
      in if \<not> truthy task_title
         then (Inl (ActionExecutionError, ''Task title required for COMPLETE_TASK action''), a, w)
         else
           (case find_task task_title (case_id a) w of
              (Inl e, w1) \<Rightarrow> (Inl e, a, w1)
            | (Inr None, w1) \<Rightarrow>
                (Inl (ActionExecutionError, ''Task not found: '' @ py_str task_title), a, w1)
            | (Inr (Some t), w1) \<Rightarrow>
                (let t1 = t\<lparr>task_status := COMPLETE, task_completed_at := Some (clock w1)\<rparr>
                 in case update_task t1 w1 of
                      (Inl e, w2) \<Rightarrow> (Inl e, a, w2)
                    | (Inr updated, w2) \<Rightarrow>
                        finish (mark_executed a w2) (Dump_task t) (Dump_task updated) w2)))"

definition complete_task_action :: "Action \<Rightarrow> world \<Rightarrow> (exn + bool) \<times> Action \<times> world" where
  "complete_task_action a w = guarded ''Failed to complete task: '' (complete_task_body a w)"

definition task_handler_execute :: "Action \<Rightarrow> world \<Rightarrow> (exn + bool) \<times> Action \<times> world" where
  "task_handler_execute a w =
     (if atype a = CREATE_TASK then create_task_action a w
      else if atype a = COMPLETE_TASK then complete_task_action a w
      else (Inl (unsupported a), a, w))"

section \<open>The language model service as the core sees it (llm/service.py)\<close>

record Classification =
  category :: MessageCategory
  cl_confidence :: rat
  reasoning :: string
  is_relevant :: bool

definition classification_should_process :: "Classification \<Rightarrow> bool" where
  "classification_should_process cl = (is_relevant cl \<and> category cl \<noteq> IRRELEVANT)"

record ExtractedEntities =
  ee_client_name :: "string option"
  ee_case_id :: "string option"
  ee_case_title :: "string option"
  field_updates :: "(string \<times> string) list"
  missing_fields :: "string list"
  ee_confidence :: rat
  additional_context :: pydict

text \<open>
  The service is external: each of its methods is a function the environment supplies,
  which returns or raises. \<open>generate_followup_email\<close> receives the missing fields as the
  handler found them in the parameters.
\<close>

record llm_service =
  classify_message :: "Message \<Rightarrow> exn + Classification"
  extract_entities :: "Message \<Rightarrow> Classification \<Rightarrow> exn + ExtractedEntities"
  determine_action ::
    "Message \<Rightarrow> Classification \<Rightarrow> ExtractedEntities \<Rightarrow> Case option \<Rightarrow> exn + Action"
  generate_followup_email :: "Case \<Rightarrow> pyval \<Rightarrow> exn + string"

section \<open>Follow-up actions (actions/followup_actions.py)\<close>

text \<open>
  \<open>for field in missing_fields\<close>: the items of a list, the characters of a string, the
  keys of a dictionary; a boolean or \<open>None\<close> is not iterable.
\<close>

datatype iteration = Not_iterable | Items "pyval list"

definition py_iter :: "pyval \<Rightarrow> iteration" where
  "py_iter v =
     (case v of
        PList xs \<Rightarrow> Items xs
      | PStr s \<Rightarrow> Items (map (\<lambda>c. PStr [c]) s)
      | PDict d \<Rightarrow> Items (map (\<lambda>kv. PStr (fst kv)) d)
      | PNone \<Rightarrow> Not_iterable
      | PBool b \<Rightarrow> Not_iterable)"

definition generate_simple_followup :: "Case \<Rightarrow> pyval \<Rightarrow> exn + string" where
  "generate_simple_followup c missing =
     (case py_iter missing of
        Not_iterable \<Rightarrow>
          Inl (TypeError,
               [CHR 0x27] @ type_name missing @ [CHR 0x27] @ '' object is not iterable'')
      | Items xs \<Rightarrow>
          Inr (''Dear Provider,'' @ newline @ newline
               @ ''We are following up on the Letter of Authority for '' @ client_name c @ ''.''
               @ newline @ newline
               @ ''We are still awaiting the following information:'' @ newline
               @ join newline (map (\<lambda>x. ''- '' @ py_str x) xs) @ newline @ newline
               @ ''Please provide these details at your earliest convenience.''
               @ newline @ newline
               @ ''Thank you for your assistance.'' @ newline @ newline
               @ ''Best regards'' @ newline))"

definition draft_followup_email_body ::
  "llm_service option \<Rightarrow> Action \<Rightarrow> world \<Rightarrow> (exn + bool) \<times> Action \<times> world" where
  "draft_followup_email_body llm a w =
     (if \<not> truthy_opt (case_id a)
      then (Inl (ActionExecutionError, ''Case ID required for DRAFT_FOLLOWUP_EMAIL action''),
            a, w)
      else
        (case get_case (case case_id a of Some i \<Rightarrow> i | None \<Rightarrow> []) w of
           (Inl e, w1) \<Rightarrow> (Inl e, a, w1)
         | (Inr c, w1) \<Rightarrow>
             (let missing = dict_get (parameters a) ''missing_fields''
                              (PList (map PStr (get_missing_fields c)))
              in if \<not> truthy missing
                 then
                   (let a1 = (mark_executed a w1)
                               \<lparr>parameters :=
                                  AList.update ''email_content''
                                    (PStr ''No missing fields to follow up on.'')
                                    (parameters a)\<rparr>
                    in finish a1 (Dict []) (Dict [(''status'', PStr ''no_action_needed'')]) w1)
                 else
                   (case (case llm of
                            Some svc \<Rightarrow> generate_followup_email svc c missing
                          | None \<Rightarrow> generate_simple_followup c missing) of
                      Inl e \<Rightarrow> (Inl e, a, w1)
                    | Inr email_content \<Rightarrow>
                        (let a1 = (mark_executed a w1)
                                    \<lparr>parameters :=
                                       AList.update ''missing_fields'' missing
                                         (AList.update ''email_content'' (PStr email_content)
                                            (parameters a))\<rparr>
                         in finish a1 (Dict [])
                              (Dict [(''email_drafted'', PBool True),
                                     (''missing_fields'', missing)]) w1)))))"

definition draft_followup_email_action ::
  "llm_service option \<Rightarrow> Action \<Rightarrow> world \<Rightarrow> (exn + bool) \<times> Action \<times> world" where
  "draft_followup_email_action llm a w =
     guarded ''Failed to draft follow-up email: '' (draft_followup_email_body llm a w)"

text \<open>The chase record; the numeral of the clock reading stands for its ISO text.\<close>

definition chase_info :: "Case \<Rightarrow> timestamp \<Rightarrow> pydict" where
  "chase_info c now =
     [(''case_id'', PStr (cid c)),
      (''case_title'', PStr (case_title c)),
      (''client_name'', PStr (client_name c)),
      (''missing_fields'', PList (map PStr (get_missing_fields c))),
      (''chase_initiated_at'', PStr (timestamp_str now))]"

definition initiate_loa_chase_body :: "Action \<Rightarrow> world \<Rightarrow> (exn + bool) \<times> Action \<times> world" where
  "initiate_loa_chase_body a w =
     (if \<not> truthy_opt (case_id a)
      then (Inl (ActionExecutionError, ''Case ID required for INITIATE_LOA_CHASE action''),
            a, w)
      else
        (case get_case (case case_id a of Some i \<Rightarrow> i | None \<Rightarrow> []) w of
           (Inl e, w1) \<Rightarrow> (Inl e, a, w1)
         | (Inr c, w1) \<Rightarrow>
             (let info = chase_info c (clock w1);
                  a1 = (mark_executed a w1)
                         \<lparr>parameters := AList.update ''chase_info'' (PDict info) (parameters a)\<rparr>
              in finish a1 (Dict []) (Dict info) w1)))"

definition initiate_loa_chase_action ::
  "Action \<Rightarrow> world \<Rightarrow> (exn + bool) \<times> Action \<times> world" where
  "initiate_loa_chase_action a w =
     guarded ''Failed to initiate LOA chase: '' (initiate_loa_chase_body a w)"

definition followup_handler_execute ::
  "llm_service option \<Rightarrow> Action \<Rightarrow> world \<Rightarrow> (exn + bool) \<times> Action \<times> world" where
  "followup_handler_execute llm a w =
     (if atype a = DRAFT_FOLLOWUP_EMAIL then draft_followup_email_action llm a w
      else if atype a = INITIATE_LOA_CHASE then initiate_loa_chase_action a w
      else (Inl (unsupported a), a, w))"

section \<open>Action router (actions/router.py)\<close>

datatype handler_class = CaseActionHandler | TaskActionHandler | FollowupActionHandler

fun ACTION_TYPE_TO_HANDLER :: "ActionType \<Rightarrow> handler_class option" where
  "ACTION_TYPE_TO_HANDLER CREATE_CASE = Some CaseActionHandler"
| "ACTION_TYPE_TO_HANDLER UPDATE_CASE = Some CaseActionHandler"
| "ACTION_TYPE_TO_HANDLER COMPLETE_CASE = Some CaseActionHandler"
| "ACTION_TYPE_TO_HANDLER CANCEL_CASE = Some CaseActionHandler"
| "ACTION_TYPE_TO_HANDLER CREATE_TASK = Some TaskActionHandler"
| "ACTION_TYPE_TO_HANDLER COMPLETE_TASK = Some TaskActionHandler"
| "ACTION_TYPE_TO_HANDLER DRAFT_FOLLOWUP_EMAIL = Some FollowupActionHandler"
| "ACTION_TYPE_TO_HANDLER INITIATE_LOA_CHASE = Some FollowupActionHandler"
| "ACTION_TYPE_TO_HANDLER IGNORE = None"

definition handler_execute ::
  "llm_service option \<Rightarrow> handler_class \<Rightarrow> Action \<Rightarrow> world \<Rightarrow> (exn + bool) \<times> Action \<times> world" where
  "handler_execute llm h a w =
     (case h of
        CaseActionHandler \<Rightarrow> case_handler_execute a w
      | TaskActionHandler \<Rightarrow> task_handler_execute a w
      | FollowupActionHandler \<Rightarrow> followup_handler_execute llm a w)"

definition route_action ::
  "llm_service option \<Rightarrow> Action \<Rightarrow> world \<Rightarrow> (exn + bool) \<times> Action \<times> world" where
  "route_action llm a w =
     (if atype a = IGNORE then (Inr True, a, w)
      else
        (case ACTION_TYPE_TO_HANDLER (atype a) of
           None \<Rightarrow>
             (Inl (ActionExecutionError,
                   ''No handler for action type: ActionType.'' @ action_type_value (atype a)),
              a, w)
         | Some h \<Rightarrow> handler_execute llm h a w))"

section \<open>Audit bookkeeping\<close>

text \<open>
  Notions the statements about the audit trail use: two worlds with the same audit
  collection and the same pending audit faults; the entry \<open>log_action\<close> builds; and what a
  handler's \<open>try\<close> block leaves behind when the audit store accepts writes: after a raise
  the audit collection as it was, after a return one more entry, a successful one.
\<close>

definition same_audit :: "world \<Rightarrow> world \<Rightarrow> bool" where
  "same_audit w w1 = (audit_logs w1 = audit_logs w \<and> audit_faults w1 = audit_faults w)"





section \<open>Pipeline results (core/models.py)\<close>

text \<open>The elapsed wall-clock times of the two result models are measurements and are left out.\<close>

record ProcessingResult =
  message_id :: string
  pr_success :: bool
  classification :: "Classification option"
  extracted_entities :: "ExtractedEntities option"
  actions_taken :: "Action list"
  pr_error_message :: "string option"

record BatchProcessingResult =
  total_messages :: nat
  processed :: nat
  failed :: nat
  skipped :: nat
  results :: "ProcessingResult list"

definition get_success_rate :: "BatchProcessingResult \<Rightarrow> rat" where
  "get_success_rate b =
     (if total_messages b = 0 then 0
      else (of_nat (processed b) / of_nat (total_messages b)) * 100)"

section \<open>Orchestrator (pipeline/orchestrator.py)\<close>

record orchestrator =
  orc_llm :: llm_service
  pre_filter :: PreFilter

text \<open>Step 4: look for an open case of the extracted client, when there is a client name.\<close>

definition match_case :: "ExtractedEntities \<Rightarrow> world \<Rightarrow> (exn + Case option) \<times> world" where
  "match_case entities w =
     (if truthy_opt (ee_client_name entities)
      then find_case_by_client_and_title
             (case ee_client_name entities of Some n \<Rightarrow> n | None \<Rightarrow> [])
             (ee_case_title entities) w
      else (Inr None, w))"

text \<open>An action without a case reference takes the matched case's identifier.\<close>

definition associate :: "Action \<Rightarrow> Case option \<Rightarrow> Action" where
  "associate action existing_case =
     (case existing_case of
        Some c \<Rightarrow>
          (if \<not> truthy_opt (case_id action) then action\<lparr>case_id := Some (cid c)\<rparr>
           else action)
      | None \<Rightarrow> action)"

text \<open>Step 6: route the action unless it is \<open>IGNORE\<close>; the result is the list of actions taken.\<close>

definition execute_step :: "llm_service \<Rightarrow> Action \<Rightarrow> world \<Rightarrow> (exn + Action list) \<times> world" where
  "execute_step svc action w =
     (if action_type_value (atype action) \<noteq> ''IGNORE''
      then (case route_action (Some svc) action w of
              (Inl e, a1, w1) \<Rightarrow> (Inl e, w1)
            | (Inr ok, a1, w1) \<Rightarrow> (Inr [a1\<lparr>success := Some ok\<rparr>], w1))
      else (Inr [], w))"

definition filtered_result :: "Message \<Rightarrow> ProcessingResult" where
  "filtered_result m =
     \<lparr> message_id = mid m, pr_success = True,
       classification =
         Some \<lparr> category = IRRELEVANT, cl_confidence = 1,
                reasoning = ''Filtered out by pre-filter (spam/marketing)'',
                is_relevant = False \<rparr>,
       extracted_entities = None, actions_taken = [], pr_error_message = None \<rparr>"

definition failed_result :: "Message \<Rightarrow> exn \<Rightarrow> ProcessingResult" where
  "failed_result m e =
     \<lparr> message_id = mid m, pr_success = False, classification = None,
       extracted_entities = None, actions_taken = [],
       pr_error_message = Some (str_of_exn e) \<rparr>"

text \<open>
  The \<open>try\<close> block of \<open>process_message\<close>. It gives the result it returns or the exception
  it raises, the message (whose status step 7 sets) and the world.
\<close>

definition process_message_body ::
  "orchestrator \<Rightarrow> Message \<Rightarrow> world \<Rightarrow> (exn + ProcessingResult) \<times> Message \<times> world" where
  "process_message_body orc m w =
     (if \<not> should_process (pre_filter orc) m then (Inr (filtered_result m), m, w)
      else
        (case classify_message (orc_llm orc) m of
           Inl e \<Rightarrow> (Inl e, m, w)
         | Inr cl \<Rightarrow>
             (if \<not> classification_should_process cl
              then (Inr \<lparr> message_id = mid m, pr_success = True, classification = Some cl,
                           extracted_entities = None, actions_taken = [],
                           pr_error_message = None \<rparr>, m, w)
              else
                (case extract_entities (orc_llm orc) m cl of
                   Inl e \<Rightarrow> (Inl e, m, w)
                 | Inr entities \<Rightarrow>
                     (case match_case entities w of
                        (Inl e, w1) \<Rightarrow> (Inl e, m, w1)
                      | (Inr existing_case, w1) \<Rightarrow>
                          (case determine_action (orc_llm orc) m cl entities existing_case of
                             Inl e \<Rightarrow> (Inl e, m, w1)
                           | Inr action \<Rightarrow>
                               (case execute_step (orc_llm orc)
                                       (associate action existing_case) w1 of
                                  (Inl e, w2) \<Rightarrow> (Inl e, m, w2)
                                | (Inr taken, w2) \<Rightarrow>
                                    (Inr \<lparr> message_id = mid m, pr_success = True,
                                            classification = Some cl,
                                            extracted_entities = Some entities,
                                            actions_taken = taken,
                                            pr_error_message = None \<rparr>,
                                     m\<lparr>processing_status := PROCESSED\<rparr>, w2))))))))"

definition process_message ::
  "orchestrator \<Rightarrow> Message \<Rightarrow> world \<Rightarrow> ProcessingResult \<times> Message \<times> world" where
  "process_message orc m w =
     (case process_message_body orc m w of
        (Inr res, m1, w1) \<Rightarrow> (res, m1, w1)
      | (Inl e, m1, w1) \<Rightarrow> (failed_result m e, m1\<lparr>processing_status := FAILED\<rparr>, w1))"

text \<open>The counters of \<open>process_batch\<close> after one more result.\<close>

definition count_result :: "ProcessingResult \<Rightarrow> nat \<times> nat \<times> nat \<Rightarrow> nat \<times> nat \<times> nat" where
  "count_result res counts =
     (case counts of
        (processed_count, failed_count, skipped_count) \<Rightarrow>
          (if pr_success res then
             (if (case classification res of
                    Some cl \<Rightarrow> classification_should_process cl
                  | None \<Rightarrow> False)
              then (processed_count + 1, failed_count, skipped_count)
              else (processed_count, failed_count, skipped_count + 1))
           else (processed_count, failed_count + 1, skipped_count)))"

text \<open>How \<open>process_batch\<close> classes a result: processed, skipped or failed.\<close>

definition relevant_result :: "ProcessingResult \<Rightarrow> bool" where
  "relevant_result res =
     (case classification res of
        Some cl \<Rightarrow> classification_should_process cl
      | None \<Rightarrow> False)"

definition is_processed :: "ProcessingResult \<Rightarrow> bool" where
  "is_processed res = (pr_success res \<and> relevant_result res)"

definition is_skipped :: "ProcessingResult \<Rightarrow> bool" where
  "is_skipped res = (pr_success res \<and> \<not> relevant_result res)"

definition is_failed :: "ProcessingResult \<Rightarrow> bool" where
  "is_failed res = (\<not> pr_success res)"

text \<open>
  The loop of \<open>process_batch\<close>: the messages left, the results so far, the counters and
  the world.
\<close>

fun batch_loop ::
  "orchestrator \<Rightarrow> Message list \<Rightarrow> ProcessingResult list \<Rightarrow> nat \<times> nat \<times> nat \<Rightarrow> world
     \<Rightarrow> ProcessingResult list \<times> (nat \<times> nat \<times> nat) \<times> world" where
  "batch_loop orc [] rs counts w = (rs, counts, w)"
| "batch_loop orc (m # ms) rs counts w =
     (case process_message orc m w of
        (res, m1, w1) \<Rightarrow> batch_loop orc ms (rs @ [res]) (count_result res counts) w1)"

definition process_batch ::
  "orchestrator \<Rightarrow> Message list \<Rightarrow> world \<Rightarrow> BatchProcessingResult \<times> world" where
  "process_batch orc messages w =
     (case batch_loop orc messages [] (0, 0, 0) w of
        (rs, (processed_count, failed_count, skipped_count), w1) \<Rightarrow>
          (\<lparr> total_messages = length messages, processed = processed_count,
             failed = failed_count, skipped = skipped_count, results = rs \<rparr>, w1))"

text \<open>The three counters as counts over a list of results.\<close>

definition tally :: "ProcessingResult list \<Rightarrow> nat \<times> nat \<times> nat" where
  "tally rs = (length (filter is_processed rs), length (filter is_failed rs),
               length (filter is_skipped rs))"

section \<open>Producers of classifications (llm/service.py, llm/mock_service.py)\<close>

fun category_value :: "MessageCategory \<Rightarrow> string" where
  "category_value CLIENT_TASK = ''CLIENT_TASK''"
| "category_value LOA_CHASE = ''LOA_CHASE''"
| "category_value LOA_MISSING_INFO = ''LOA_MISSING_INFO''"
| "category_value LOA_RESPONSE = ''LOA_RESPONSE''"
| "category_value ADMIN = ''ADMIN''"
| "category_value IRRELEVANT = ''IRRELEVANT''"

definition all_categories :: "MessageCategory list" where
  "all_categories = [CLIENT_TASK, LOA_CHASE, LOA_MISSING_INFO, LOA_RESPONSE, ADMIN, IRRELEVANT]"

text \<open>\<open>MessageCategory(v)\<close>: the member with that value, or a \<open>ValueError\<close>.\<close>

definition parse_MessageCategory :: "pyval \<Rightarrow> exn + MessageCategory" where
  "parse_MessageCategory v =
     (case find (\<lambda>c. PStr (category_value c) = v) all_categories of
        Some c \<Rightarrow> Inr c
      | None \<Rightarrow> Inl (ValueError, py_repr v @ '' is not a valid MessageCategory''))"

text \<open>
  The \<open>Classification\<close> constructor: \<open>confidence\<close> is validated against
  \<open>Field(ge=0.0, le=1.0)\<close>, and \<open>is_relevant\<close> defaults to true when it is not given.
\<close>

definition new_Classification ::
  "MessageCategory \<Rightarrow> rat \<Rightarrow> string \<Rightarrow> bool option \<Rightarrow> exn + Classification" where
  "new_Classification cat conf why relevant =
     (if 0 \<le> conf \<and> conf \<le> 1
      then Inr \<lparr> category = cat, cl_confidence = conf, reasoning = why,
                 is_relevant = (case relevant of Some b \<Rightarrow> b | None \<Rightarrow> True) \<rparr>
      else Inl (validation_error 1 ''Classification''))"

text \<open>\<open>MockLLMService.classify_message\<close>: the category the message's metadata expects.\<close>

definition mock_classify_message :: "Message \<Rightarrow> exn + Classification" where
  "mock_classify_message m =
     (let expected_category = dict_get (metadata m) ''expected_category'' PNone
      in if truthy expected_category
         then (case parse_MessageCategory expected_category of
                 Inl e \<Rightarrow> Inl e
               | Inr cat \<Rightarrow>
                   new_Classification cat 1
                     (''Mock classification: Message categorized as '' @ category_value cat)
                     (Some (cat \<noteq> IRRELEVANT)))
         else new_Classification IRRELEVANT (1 / 2)
                ''Mock classification: No expected category in metadata'' (Some False))"

text \<open>\<open>any(k in lower for k in keywords)\<close>.\<close>

definition any_keyword_in :: "string list \<Rightarrow> string \<Rightarrow> bool" where
  "any_keyword_in keywords text = list_ex (\<lambda>k. str_in k text) keywords"

text \<open>
  \<open>LLMService._heuristic_classification\<close>, the fallback when the model gives no usable
  answer; \<open>lower_fn\<close> is the runtime's \<open>str.lower\<close>.
\<close>

definition heuristic_classification ::
  "(string \<Rightarrow> string) \<Rightarrow> string \<Rightarrow> string \<Rightarrow> exn + Classification" where
  "heuristic_classification lower_fn text fallback_reason =
     (let low = lower_fn text;
          choice =
            (if any_keyword_in [''unsubscribe'', ''out of office'', ''newsletter'', ''meeting'',
                                ''invoice'', ''billing''] low
             then (ADMIN, False)
             else if any_keyword_in [''missing'', ''provide'', ''required'', ''need more'',
                                     ''can'' @ [CHR 0x27] @ ''t process'', ''insufficient''] low
             then (LOA_MISSING_INFO, True)
             else if any_keyword_in [''attached'', ''signed loa'', ''authorised'', ''policy'',
                                     ''plan number'', ''dob'', ''ni number'',
                                     ''national insurance''] low
             then (LOA_RESPONSE, True)
             else if any_keyword_in [''follow up'', ''chase'', ''status'', ''update on'',
                                     ''when can'', ''awaiting''] low
             then (LOA_CHASE, True)
             else if any_keyword_in [''open a case'', ''create case'', ''start loa'', ''onboard'',
                                     ''annual review'', ''task''] low
             then (CLIENT_TASK, True)
             else (IRRELEVANT, False))
      in new_Classification (fst choice) (if snd choice then 6 / 10 else 1 / 2)
           fallback_reason (Some (snd choice)))"

text \<open>
  The end of the parsing path of \<open>LLMService.classify_message\<close>, from the category,
  confidence, reasoning and relevance read from the model's answer: with a known
  category the relevance is set to false for admin and irrelevant before the
  classification is built; with none the caller falls back to the heuristic.
\<close>

definition classification_of_answer ::
  "(string \<Rightarrow> string) \<Rightarrow> MessageCategory option \<Rightarrow> rat \<Rightarrow> string \<Rightarrow> bool \<Rightarrow> string
     \<Rightarrow> exn + Classification" where
  "classification_of_answer lower_fn cat conf why relevant text =
     (case cat of
        Some c \<Rightarrow>
          new_Classification c conf why
            (Some (if c \<in> set [IRRELEVANT, ADMIN] then False else relevant))
      | None \<Rightarrow> heuristic_classification lower_fn text ''Unable to parse LLM response'')"

text \<open>The derived rule: admin and irrelevant classifications are not relevant.\<close>

definition relevance_rule :: "Classification \<Rightarrow> bool" where
  "relevance_rule cl = (\<not> (category cl \<in> {ADMIN, IRRELEVANT} \<and> is_relevant cl))"

section \<open>Sample data\<close>

definition sample_case :: Case where
  "sample_case =
     \<lparr> cid = ''case_1'', client_name = ''John Doe'', case_title = ''LoA for John Doe'',
       case_type = LOA, status = OPEN, required_fields = [''DOB'', ''NI''],
       received_fields = DAList.empty, created_at = 0, updated_at = 0,
       completed_at = None, assigned_to = None, tags = [], case_notes = [] \<rparr>"

definition sample_fv :: "string \<Rightarrow> string \<Rightarrow> FieldValue" where
  "sample_fv n v = \<lparr> field_name = n, fv_value = v, received_at = 3,
                     source_message_id = ''msg_1'', confidence = 1 \<rparr>"

definition sample_case_dob :: Case where
  "sample_case_dob =
     sample_case \<lparr> status := IN_PROGRESS,
       received_fields := DAList.update ''DOB'' (sample_fv ''DOB'' ''1980-01-01'') DAList.empty \<rparr>"

definition sample_case_full :: Case where
  "sample_case_full =
     sample_case_dob \<lparr> received_fields :=
       DAList.update ''NI'' (sample_fv ''NI'' ''AB123456C'') (received_fields sample_case_dob) \<rparr>"

definition sample_world :: "Case \<Rightarrow> world" where
  "sample_world c =
     \<lparr> cases = [(cid c, c)], case_tasks = [], tasks = [], audit_logs = [], clock = 42,
       case_faults = [], audit_faults = [] \<rparr>"

definition sample_case_done :: Case where
  "sample_case_done = sample_case \<lparr> status := COMPLETE, completed_at := Some 3 \<rparr>"

text \<open>
  \<open>str.lower()\<close> on ASCII text, where it changes the letters A to Z and nothing else. The
  sample messages and addresses are ASCII, so on them this is Python's lowering.
\<close>

definition ascii_lower_char :: "char \<Rightarrow> char" where
  "ascii_lower_char c =
     (case map_of (zip ''ABCDEFGHIJKLMNOPQRSTUVWXYZ'' ''abcdefghijklmnopqrstuvwxyz'') c of
        Some d \<Rightarrow> d
      | None \<Rightarrow> c)"

definition ascii_lower :: "string \<Rightarrow> string" where
  "ascii_lower s = map ascii_lower_char s"

definition default_filter :: PreFilter where
  "default_filter = new_PreFilter ascii_lower None None None None"

definition email :: "string \<Rightarrow> string \<Rightarrow> string \<Rightarrow> Message" where
  "email sender subj text =
     \<lparr> mid = ''msg_1'', msg_timestamp = 0, source_type = EMAIL,
       content = EmailContent sender ''ops@firm.example'' subj text,
       metadata = [], processing_status = PENDING \<rparr>"

definition sample_action :: "ActionType \<Rightarrow> string option \<Rightarrow> Action" where
  "sample_action t i =
     \<lparr> aid = ''action_1'', atype = t, case_id = i, parameters = [],
       triggered_by = ''msg_1'', action_created_at = 40, executed_at = None,
       success = None, error_message = None \<rparr>"

definition sample_classification :: Classification where
  "sample_classification =
     \<lparr> category = LOA_CHASE, cl_confidence = 1, reasoning = ''chase'', is_relevant = True \<rparr>"

definition sample_entities :: ExtractedEntities where
  "sample_entities =
     \<lparr> ee_client_name = None, ee_case_id = None, ee_case_title = None,
       field_updates = [], missing_fields = [], ee_confidence = 1,
       additional_context = [] \<rparr>"

definition sample_llm :: llm_service where
  "sample_llm =
     \<lparr> classify_message =
         (\<lambda>m. if mid m = ''m2'' then Inl (BackendError, ''model unavailable'')
              else Inr sample_classification),
       extract_entities =
         (\<lambda>m cl. Inr sample_entities),
       determine_action = (\<lambda>m cl entities existing. Inr (sample_action IGNORE None)),
       generate_followup_email = (\<lambda>c missing. Inr ''Please send the missing fields.'') \<rparr>"

definition sample_orchestrator :: orchestrator where
  "sample_orchestrator =
     \<lparr> orc_llm = sample_llm,
       pre_filter = new_PreFilter ascii_lower (Some [''sale'', ''offer'']) (Some [''loa''])
                      (Some [''spam.example'']) (Some [''firm.example'']) \<rparr>"

definition sample_spam :: Message where
  "sample_spam = (email ''a@spam.example'' ''sale'' ''offer'')\<lparr>mid := ''m1''\<rparr>"

definition sample_broken :: Message where
  "sample_broken = (email ''b@other.example'' ''LoA'' ''reply'')\<lparr>mid := ''m2''\<rparr>"

definition sample_chase :: Message where
  "sample_chase = (email ''c@other.example'' ''LoA'' ''chase'')\<lparr>mid := ''m3''\<rparr>"

definition sample_batch :: "Message list" where
  "sample_batch = [sample_spam, sample_broken, sample_chase]"

definition sample_admin_message :: Message where
  "sample_admin_message =
     (email ''office@firm.example'' ''Team meeting'' ''Agenda attached'')
       \<lparr>metadata := [(''expected_category'', PStr ''ADMIN'')]\<rparr>"

section \<open>State machine: rejected and same-state transitions\<close>

text \<open>
  With validation on, a transition to a different status that the table does not list
  for the current status raises an invalid-state-transition error and leaves the case as
  it was (so its status is unchanged); a transition to the current status raises nothing
  and leaves the status unchanged, and for every status but complete it leaves the whole
  case unchanged.
\<close>

theorem transition_rejects_or_noop:
  "(to_status \<noteq> status c \<and> to_status \<notin> VALID_TRANSITIONS (status c) \<longrightarrow>
      (\<exists>msg. transition c to_status True now = (c, Some (InvalidStateTransitionError, msg)))
      \<and> status (fst (transition c to_status True now)) = status c)
   \<and> (to_status = status c \<longrightarrow>
      snd (transition c to_status True now) = None
      \<and> status (fst (transition c to_status True now)) = status c
      \<and> (status c \<noteq> COMPLETE \<longrightarrow> fst (transition c to_status True now) = c))"
  by (auto simp: transition_def validate_transition_def can_transition_def Let_def)

theorem transition_rejects_or_noop_witness:
  "transition sample_case COMPLETE True 7
     = (sample_case, Some (InvalidStateTransitionError,
          ''Invalid state transition for case case_1: OPEN '' @ arrow @ '' COMPLETE''))
   \<and> status (fst (transition sample_case COMPLETE True 7)) = OPEN
   \<and> transition sample_case OPEN True 7 = (sample_case, None)"
  using transition_rejects_or_noop [of COMPLETE sample_case 7]
        transition_rejects_or_noop [of OPEN sample_case 7]
  by (simp add: sample_case_def transition_def validate_transition_def can_transition_def)

text \<open>
  C1. The same-state transition of a complete case is not a no-op: \<open>transition\<close> from
  complete to complete, with validation on, succeeds and keeps the status, but stamps
  the completion time again, so a case completed at 3 comes back completed at 7. The
  stamp is set whenever the target is complete; the status the case had before, which
  \<open>transition\<close> saves in \<open>old_status\<close>, is not consulted.
\<close>

theorem same_state_complete_restamps:
  "can_transition COMPLETE COMPLETE
   \<and> completed_at sample_case_done = Some 3
   \<and> transition sample_case_done COMPLETE True 7
       = (sample_case_done\<lparr>completed_at := Some 7\<rparr>, None)
   \<and> completed_at (fst (transition sample_case_done COMPLETE True 7)) = Some 7
   \<and> fst (transition sample_case_done COMPLETE True 7) \<noteq> sample_case_done"
  by (simp add: sample_case_done_def sample_case_def transition_def validate_transition_def
        can_transition_def)

section \<open>Completeness of a case\<close>

lemma missing_fields_empty_iff:
  "get_missing_fields c = [] \<longleftrightarrow> set (required_fields c) \<subseteq> set (received_keys c)"
  by (auto simp: get_missing_fields_def filter_empty_conv)

text \<open>
  C3. For a case of LoA type \<open>is_complete\<close> holds exactly when every required field name
  is a key of the received fields, whatever the status; for any other type it holds
  exactly when the status is complete; with no required field the completion percentage
  is 100 and an LoA case is complete.
\<close>

theorem is_complete_characterisation:
  "(case_type c = LOA \<longrightarrow>
      is_complete c = (set (required_fields c) \<subseteq> set (received_keys c))
      \<and> is_complete (c\<lparr>status := s\<rparr>) = is_complete c)
   \<and> (case_type c \<noteq> LOA \<longrightarrow> is_complete c = (status c = COMPLETE))
   \<and> (required_fields c = [] \<longrightarrow>
        get_completion_percentage c = 100 \<and> (case_type c = LOA \<longrightarrow> is_complete c))"
  by (simp add: is_complete_def get_completion_percentage_def received_keys_def)

theorem is_complete_characterisation_witness:
  "is_complete sample_case_full \<and> \<not> is_complete sample_case_dob
   \<and> is_complete (sample_case_full\<lparr>status := CANCELLED\<rparr>)
   \<and> \<not> is_complete (sample_case_full\<lparr>case_type := GENERAL\<rparr>)
   \<and> is_complete (sample_case_full\<lparr>case_type := GENERAL, status := COMPLETE\<rparr>)
   \<and> get_completion_percentage (sample_case\<lparr>required_fields := []\<rparr>) = 100
   \<and> is_complete (sample_case\<lparr>required_fields := []\<rparr>)"
  using is_complete_characterisation [of sample_case_full CANCELLED]
        is_complete_characterisation [of sample_case_dob OPEN]
        is_complete_characterisation [of "sample_case_full\<lparr>case_type := GENERAL\<rparr>" OPEN]
        is_complete_characterisation
          [of "sample_case_full\<lparr>case_type := GENERAL, status := COMPLETE\<rparr>" OPEN]
        is_complete_characterisation [of "sample_case\<lparr>required_fields := []\<rparr>" OPEN]
  by (simp add: sample_case_full_def sample_case_dob_def sample_case_def sample_fv_def
        received_keys_def update.rep_eq empty.rep_eq)

section \<open>Advisory transitions\<close>

text \<open>
  C8. \<open>should_auto_transition\<close> suggests complete for an LoA case in progress or awaiting
  information whose required fields are all received; it suggests awaiting-info for an
  LoA case in progress with a required field missing; it suggests nothing for an LoA
  case already awaiting information with a field missing, for a case of another type,
  and for a case in any other status.
\<close>

theorem should_auto_transition_cases:
  "(case_type c = LOA \<and> status c \<in> {IN_PROGRESS, AWAITING_INFO}
      \<and> set (required_fields c) \<subseteq> set (received_keys c)
      \<longrightarrow> should_auto_transition c = Some COMPLETE)
   \<and> (case_type c = LOA \<and> status c = IN_PROGRESS
      \<and> \<not> set (required_fields c) \<subseteq> set (received_keys c)
      \<longrightarrow> should_auto_transition c = Some AWAITING_INFO)
   \<and> (case_type c = LOA \<and> status c = AWAITING_INFO
      \<and> \<not> set (required_fields c) \<subseteq> set (received_keys c)
      \<longrightarrow> should_auto_transition c = None)
   \<and> (case_type c \<noteq> LOA \<longrightarrow> should_auto_transition c = None)
   \<and> (status c \<notin> {IN_PROGRESS, AWAITING_INFO} \<longrightarrow> should_auto_transition c = None)"
  using missing_fields_empty_iff [of c]
  by (simp add: should_auto_transition_def is_complete_def)

theorem should_auto_transition_cases_witness:
  "should_auto_transition sample_case_dob = Some AWAITING_INFO
   \<and> should_auto_transition sample_case_full = Some COMPLETE
   \<and> should_auto_transition (sample_case_full\<lparr>case_type := GENERAL\<rparr>) = None
   \<and> should_auto_transition (sample_case_dob\<lparr>status := AWAITING_INFO\<rparr>) = None
   \<and> should_auto_transition (sample_case_full\<lparr>status := OPEN\<rparr>) = None"
  using should_auto_transition_cases [of sample_case_dob]
        should_auto_transition_cases [of sample_case_full]
        should_auto_transition_cases [of "sample_case_full\<lparr>case_type := GENERAL\<rparr>"]
        should_auto_transition_cases [of "sample_case_dob\<lparr>status := AWAITING_INFO\<rparr>"]
        should_auto_transition_cases [of "sample_case_full\<lparr>status := OPEN\<rparr>"]
  by (simp add: sample_case_full_def sample_case_dob_def sample_case_def sample_fv_def
        received_keys_def update.rep_eq empty.rep_eq)

section \<open>Field values: the last write wins\<close>

lemma filter_key_absent: "k \<notin> fst ` set xs \<Longrightarrow> filter (\<lambda>kv. fst kv = k) xs = []"
  by (induction xs) auto

lemma filter_key_update:
  "distinct (map fst xs) \<Longrightarrow> filter (\<lambda>kv. fst kv = k) (AList.update k v xs) = [(k, v)]"
  by (induction xs) (auto simp: filter_key_absent)

lemma filter_other_update:
  "filter (\<lambda>kv. fst kv \<noteq> k) (AList.update k v xs) = filter (\<lambda>kv. fst kv \<noteq> k) xs"
  by (induction xs) auto

lemma entries_named_update:
  "entries_named name
     (c\<lparr>received_fields := DAList.update name fv (received_fields c), updated_at := t\<rparr>)
     = [(name, fv)]"
  by (simp add: entries_named_def update.rep_eq filter_key_update)

lemma entries_not_named_update:
  "entries_not_named name
     (c\<lparr>received_fields := DAList.update name fv (received_fields c), updated_at := t\<rparr>)
     = entries_not_named name c"
  by (simp add: entries_not_named_def update.rep_eq filter_other_update)

text \<open>
  C9. Two calls of \<open>add_field_value\<close> in sequence under one field name (with confidences
  the \<open>FieldValue\<close> constructor accepts) both return; afterwards the received fields hold
  exactly one entry under that name, it carries the second value, and the entries under
  every other name are those the case had before.
\<close>

theorem add_field_value_last_write_wins:
  assumes "0 \<le> q1" "q1 \<le> 1" "0 \<le> q2" "q2 \<le> 1"
  shows "\<exists>c1 c2.
           add_field_value c name v1 s1 q1 t1 = (c1, None)
         \<and> add_field_value c1 name v2 s2 q2 t2 = (c2, None)
         \<and> entries_named name c2
             = [(name, \<lparr> field_name = name, fv_value = v2, received_at = t2,
                          source_message_id = s2, confidence = q2 \<rparr>)]
         \<and> DAList.lookup (received_fields c2) name
             = Some \<lparr> field_name = name, fv_value = v2, received_at = t2,
                      source_message_id = s2, confidence = q2 \<rparr>
         \<and> entries_not_named name c2 = entries_not_named name c
         \<and> (\<forall>other. other \<noteq> name \<longrightarrow>
               DAList.lookup (received_fields c2) other
                 = DAList.lookup (received_fields c) other)"
  using assms
  by (simp add: add_field_value_def new_FieldValue_def entries_named_update
        entries_not_named_update entries_not_named_def update.rep_eq filter_other_update)

theorem add_field_value_last_write_wins_witness:
  "(0::rat) \<le> 1 \<and> (0::rat) \<le> 1/2 \<and> (1/2::rat) \<le> 1
   \<and> snd (add_field_value sample_case_dob ''NI'' ''AB1'' ''m1'' 1 4) = None
   \<and> snd (add_field_value (fst (add_field_value sample_case_dob ''NI'' ''AB1'' ''m1'' 1 4))
            ''NI'' ''AB2'' ''m2'' (1/2) 5) = None
   \<and> entries_named ''NI''
        (fst (add_field_value (fst (add_field_value sample_case_dob ''NI'' ''AB1'' ''m1'' 1 4))
            ''NI'' ''AB2'' ''m2'' (1/2) 5))
       = [(''NI'', \<lparr> field_name = ''NI'', fv_value = ''AB2'', received_at = 5,
                      source_message_id = ''m2'', confidence = 1/2 \<rparr>)]
   \<and> entries_not_named ''NI''
        (fst (add_field_value (fst (add_field_value sample_case_dob ''NI'' ''AB1'' ''m1'' 1 4))
            ''NI'' ''AB2'' ''m2'' (1/2) 5))
       = [(''DOB'', sample_fv ''DOB'' ''1980-01-01'')]"
  using add_field_value_last_write_wins
          [of 1 "1/2" sample_case_dob "''NI''" "''AB1''" "''m1''" 4 "''AB2''" "''m2''" 5]
  by (auto simp add: add_field_value_def new_FieldValue_def sample_case_dob_def sample_case_def
        entries_named_def entries_not_named_def update.rep_eq empty.rep_eq)

section \<open>Repository calls that go through\<close>

lemma case_db_call_ok: "case_faults w = [] \<Longrightarrow> case_db_call w = (None, w)"
  by (simp add: case_db_call_def)


lemma get_case_ok:
  "case_faults w = [] \<Longrightarrow> map_of (cases w) i = Some c \<Longrightarrow> get_case i w = (Inr c, w)"
  by (simp add: get_case_def case_db_call_ok)

lemma update_case_ok:
  "case_faults w = [] \<Longrightarrow> map_of (cases w) (cid c) = Some c0 \<Longrightarrow>
   update_case c w = (Inr (c\<lparr>updated_at := clock w\<rparr>),
                      w\<lparr>cases := AList.update (cid c) (c\<lparr>updated_at := clock w\<rparr>) (cases w)\<rparr>)"
  by (simp add: update_case_def get_case_ok case_db_call_ok Let_def)

section \<open>Completion on field ingestion\<close>

text \<open>
  C10. When \<open>add_field_to_case\<close> has loaded a case whose status is not complete and the
  stored field makes \<open>is_complete\<close> true, the case it goes on to persist has status
  complete and the clock reading as completion time, whatever the status was; when the
  database answers, that case is what is returned and stored. No transition is
  validated: from open and from cancelled the table does not allow complete, and
  \<open>transition\<close> with validation leaves such a case as it is.
\<close>

theorem add_field_to_case_forces_complete:
  assumes "get_case i w = (Inr c, w1)"
    and "status c \<noteq> COMPLETE"
    and "is_complete (c\<lparr>received_fields := DAList.update (field_name fv) fv (received_fields c)\<rparr>)"
  shows "add_field_to_case i fv w = update_case (completed_with c fv (clock w1)) w1
       \<and> status (completed_with c fv (clock w1)) = COMPLETE
       \<and> completed_at (completed_with c fv (clock w1)) = Some (clock w1)
       \<and> (case_faults w1 = [] \<and> cid c = i \<longrightarrow>
            add_field_to_case i fv w
              = (Inr (completed_with c fv (clock w1)),
                 w1\<lparr>cases := AList.update i (completed_with c fv (clock w1)) (cases w1)\<rparr>))
       \<and> (status c \<in> {OPEN, CANCELLED} \<longrightarrow>
            \<not> can_transition (status c) COMPLETE
            \<and> fst (transition c COMPLETE True (clock w1)) = c)"
proof -
  let ?c1 = "c\<lparr>received_fields := DAList.update (field_name fv) fv (received_fields c),
                updated_at := clock w1\<rparr>"
  have comp: "is_complete ?c1"
    using assms(3) by (simp add: is_complete_def received_keys_def split: if_splits)
  have st: "status ?c1 \<noteq> COMPLETE" using assms(2) by simp
  have step: "add_field_to_case i fv w = update_case (completed_with c fv (clock w1)) w1"
    using assms(1) comp st by (simp add: add_field_to_case_def completed_with_def Let_def)
  have found: "map_of (cases w1) i = Some c"
    using assms(1) by (auto simp: get_case_def split: prod.splits option.splits)
  have persisted: "case_faults w1 = [] \<and> cid c = i \<longrightarrow>
            update_case (completed_with c fv (clock w1)) w1
              = (Inr (completed_with c fv (clock w1)),
                 w1\<lparr>cases := AList.update i (completed_with c fv (clock w1)) (cases w1)\<rparr>)"
  proof -
    have a: "cid (completed_with c fv (clock w1)) = cid c" by (simp add: completed_with_def)
    have b: "(completed_with c fv (clock w1))\<lparr>updated_at := clock w1\<rparr>
               = completed_with c fv (clock w1)" by (simp add: completed_with_def)
    show ?thesis using found by (auto simp: update_case_ok [where ?c0.0 = c] a b)
  qed
  have table: "status c \<in> {OPEN, CANCELLED} \<longrightarrow>
            \<not> can_transition (status c) COMPLETE \<and> fst (transition c COMPLETE True (clock w1)) = c"
    by (auto simp: can_transition_def transition_def validate_transition_def)
  show ?thesis using step persisted table by (simp add: completed_with_def)
qed


theorem add_field_to_case_forces_complete_witness:
  "get_case ''case_1'' (sample_world (sample_case_dob\<lparr>status := CANCELLED\<rparr>))
     = (Inr (sample_case_dob\<lparr>status := CANCELLED\<rparr>),
        sample_world (sample_case_dob\<lparr>status := CANCELLED\<rparr>))
   \<and> is_complete (sample_case_dob\<lparr>status := CANCELLED,
         received_fields := DAList.update ''NI'' (sample_fv ''NI'' ''AB123456C'')
                              (received_fields sample_case_dob)\<rparr>)
   \<and> \<not> can_transition CANCELLED COMPLETE
   \<and> add_field_to_case ''case_1'' (sample_fv ''NI'' ''AB123456C'')
         (sample_world (sample_case_dob\<lparr>status := CANCELLED\<rparr>))
       = (Inr (completed_with (sample_case_dob\<lparr>status := CANCELLED\<rparr>)
                 (sample_fv ''NI'' ''AB123456C'') 42),
          (sample_world (sample_case_dob\<lparr>status := CANCELLED\<rparr>))
            \<lparr>cases := [(''case_1'', completed_with (sample_case_dob\<lparr>status := CANCELLED\<rparr>)
                                      (sample_fv ''NI'' ''AB123456C'') 42)]\<rparr>)
   \<and> status (completed_with (sample_case_dob\<lparr>status := CANCELLED\<rparr>)
                 (sample_fv ''NI'' ''AB123456C'') 42) = COMPLETE"
proof -
  let ?c = "sample_case_dob\<lparr>status := CANCELLED\<rparr>"
  let ?w = "sample_world ?c"
  have g: "get_case ''case_1'' ?w = (Inr ?c, ?w)"
    by (simp add: get_case_def case_db_call_def sample_world_def sample_case_dob_def
          sample_case_def)
  have s: "status ?c \<noteq> COMPLETE" by simp
  have k: "is_complete (?c\<lparr>received_fields :=
             DAList.update (field_name (sample_fv ''NI'' ''AB123456C''))
               (sample_fv ''NI'' ''AB123456C'') (received_fields ?c)\<rparr>)"
    by (simp add: is_complete_def received_keys_def sample_case_dob_def sample_case_def
          sample_fv_def update.rep_eq empty.rep_eq)
  have f: "case_faults ?w = []" "cid ?c = ''case_1''" "cases ?w = [(''case_1'', ?c)]"
    by (simp_all add: sample_world_def sample_case_dob_def sample_case_def)
  have n: "field_name (sample_fv ''NI'' ''AB123456C'') = ''NI''" "clock ?w = 42"
    by (simp_all add: sample_fv_def sample_world_def)
  note t = add_field_to_case_forces_complete [OF g s k]
  have r: "add_field_to_case ''case_1'' (sample_fv ''NI'' ''AB123456C'') ?w
       = (Inr (completed_with ?c (sample_fv ''NI'' ''AB123456C'') 42),
          ?w\<lparr>cases := [(''case_1'', completed_with ?c (sample_fv ''NI'' ''AB123456C'') 42)]\<rparr>)"
    using t [THEN conjunct2, THEN conjunct2, THEN conjunct2, THEN conjunct1] f n by simp
  have c: "status (completed_with ?c (sample_fv ''NI'' ''AB123456C'') 42) = COMPLETE"
    using t [THEN conjunct2, THEN conjunct1] n by simp
  show ?thesis
    using r c g k n by (simp add: can_transition_def)
qed

section \<open>Pre-filter: the order of the rules\<close>

lemmas filter_eval =
  should_process_def whitelisted_def blacklisted_def spam_score_def relevant_score_def
  keyword_checks_def keyword_score_def any_domain_in_def str_in_def sublist_code(3)
  default_filter_def new_PreFilter_def or_default_def
  SPAM_KEYWORDS_def RELEVANT_KEYWORDS_def SPAM_DOMAINS_def WHITELIST_DOMAINS_def
  email_def get_text_content_def newline_def ascii_lower_def ascii_lower_char_def Let_def

lemma should_process_order:
  "should_process pf m =
     (if whitelisted pf m then True
      else if blacklisted pf m then False
      else if 2 \<le> spam_score pf m then False
      else True)"
  by (cases "content m")
     (simp_all add: should_process_def whitelisted_def blacklisted_def spam_score_def
        keyword_checks_def Let_def)

text \<open>
  An email from a blacklisted, not whitelisted sender with one spam keyword and one
  relevant keyword in its text is rejected: the blacklist rule answers before the
  keywords are counted.
\<close>

theorem should_process_blacklisted_counterexample:
  "spam_score default_filter (email ''promo@newsletter.com'' ''Sale'' ''about your policy'') = 1
   \<and> relevant_score default_filter (email ''promo@newsletter.com'' ''Sale'' ''about your policy'') = 1
   \<and> should_process default_filter (email ''promo@newsletter.com'' ''Sale'' ''about your policy'') = False"
  by (simp add: filter_eval)

text \<open>
  C7. \<open>should_process\<close> is a function of the filter and the message, and its rules apply in
  order, whatever the lowering of the runtime. A message whose sender matches a
  whitelist domain is processed, whatever its spam score. A message with no whitelist or
  blacklist match, a spam score of 2 or more and no relevant keyword is rejected. A
  message the blacklist rule does not reject (its sender is whitelisted or not
  blacklisted, or it has no sender) with spam score 1 and a relevant keyword is
  processed. A message that matches no rule is processed. A blacklisted sender that is
  not whitelisted is rejected.
\<close>

theorem should_process_rules:
  "(whitelisted pf m \<longrightarrow> should_process pf m)
   \<and> (\<not> whitelisted pf m \<and> \<not> blacklisted pf m \<and> 2 \<le> spam_score pf m
        \<and> relevant_score pf m = 0 \<longrightarrow> \<not> should_process pf m)
   \<and> ((whitelisted pf m \<or> \<not> blacklisted pf m) \<and> spam_score pf m = 1
        \<and> 1 \<le> relevant_score pf m \<longrightarrow> should_process pf m)
   \<and> (\<not> whitelisted pf m \<and> \<not> blacklisted pf m \<and> spam_score pf m < 2
        \<and> relevant_score pf m = 0 \<longrightarrow> should_process pf m)
   \<and> (\<not> whitelisted pf m \<and> blacklisted pf m \<longrightarrow> \<not> should_process pf m)"
  by (simp add: should_process_order)

theorem should_process_rules_witness:
  "whitelisted default_filter (email ''Ann@Firm.com'' ''Newsletter sale'' ''offer: unsubscribe'')
   \<and> 3 \<le> spam_score default_filter (email ''Ann@Firm.com'' ''Newsletter sale'' ''offer: unsubscribe'')
   \<and> should_process default_filter (email ''Ann@Firm.com'' ''Newsletter sale'' ''offer: unsubscribe'')
   \<and> \<not> whitelisted default_filter (email ''bob@other.org'' ''Big discount'' ''buy now'')
   \<and> \<not> blacklisted default_filter (email ''bob@other.org'' ''Big discount'' ''buy now'')
   \<and> spam_score default_filter (email ''bob@other.org'' ''Big discount'' ''buy now'') = 2
   \<and> relevant_score default_filter (email ''bob@other.org'' ''Big discount'' ''buy now'') = 0
   \<and> \<not> should_process default_filter (email ''bob@other.org'' ''Big discount'' ''buy now'')
   \<and> spam_score default_filter (email ''bob@other.org'' ''Special offer'' ''on your pension'') = 1
   \<and> relevant_score default_filter (email ''bob@other.org'' ''Special offer'' ''on your pension'') = 1
   \<and> should_process default_filter (email ''bob@other.org'' ''Special offer'' ''on your pension'')
   \<and> spam_score default_filter (email ''bob@other.org'' ''Hello'' ''lunch on Friday?'') = 0
   \<and> relevant_score default_filter (email ''bob@other.org'' ''Hello'' ''lunch on Friday?'') = 0
   \<and> should_process default_filter (email ''bob@other.org'' ''Hello'' ''lunch on Friday?'')"
proof -
  let ?a = "email ''Ann@Firm.com'' ''Newsletter sale'' ''offer: unsubscribe''"
  let ?b = "email ''bob@other.org'' ''Big discount'' ''buy now''"
  let ?c = "email ''bob@other.org'' ''Special offer'' ''on your pension''"
  let ?d = "email ''bob@other.org'' ''Hello'' ''lunch on Friday?''"
  have a: "whitelisted default_filter ?a" "3 \<le> spam_score default_filter ?a"
    by (simp_all add: filter_eval)
  have b: "\<not> whitelisted default_filter ?b" "\<not> blacklisted default_filter ?b"
     "spam_score default_filter ?b = 2" "relevant_score default_filter ?b = 0"
    by (simp_all add: filter_eval)
  have c: "\<not> blacklisted default_filter ?c"
     "spam_score default_filter ?c = 1" "relevant_score default_filter ?c = 1"
    by (simp_all add: filter_eval)
  have d: "\<not> whitelisted default_filter ?d" "\<not> blacklisted default_filter ?d"
     "spam_score default_filter ?d = 0" "relevant_score default_filter ?d = 0"
    by (simp_all add: filter_eval)
  show ?thesis
    using should_process_rules [of default_filter ?a] should_process_rules [of default_filter ?b]
      should_process_rules [of default_filter ?c] should_process_rules [of default_filter ?d]
      a b c d
    by simp
qed

section \<open>Audit trail of the action handlers\<close>

lemma same_audit_refl [simp]: "same_audit w w"
  by (simp add: same_audit_def)

lemma same_audit_trans: "same_audit w w1 \<Longrightarrow> same_audit w1 w2 \<Longrightarrow> same_audit w w2"
  by (simp add: same_audit_def)

























lemmas handler_eval =
  complete_case_body_def complete_case_steps_def transition_to_def transition_def
  validate_transition_def can_transition_def truthy_opt_def get_case_def update_case_def
  case_db_call_def audit_db_call_def finish_def mark_executed_def log_action_def
  audit_repo_log_action_def guarded_def except_clause_def raised_def str_of_exn_def
  sample_world_def sample_action_def sample_case_dob_def sample_case_def Let_def





section \<open>Completing a case in two hops\<close>











text \<open>
  The same-state transition of a complete case is reached through the handler: a
  \<open>COMPLETE_CASE\<close> action on a case that is already complete succeeds and stores the case
  with the clock reading as its completion time, in place of the time it was completed.
\<close>

lemma complete_case_again_restamps:
  "completed_at sample_case_done = Some 3
   \<and> fst (complete_case_action (sample_action COMPLETE_CASE (Some ''case_1''))
             (sample_world sample_case_done)) = Inr True
   \<and> map_option completed_at
        (map_of (cases (snd (snd (complete_case_action
                   (sample_action COMPLETE_CASE (Some ''case_1''))
                   (sample_world sample_case_done))))) ''case_1'')
       = Some (Some 42)"
  by (simp add: complete_case_action_def handler_eval sample_case_done_def)

section \<open>Orchestrator: failures stay with their message\<close>

lemma tally_snoc: "tally (rs @ [res]) = count_result res (tally rs)"
  by (simp add: tally_def count_result_def is_processed_def is_failed_def is_skipped_def
        relevant_result_def)

lemma process_message_id: "message_id (fst (process_message orc m w)) = mid m"
  by (auto simp: process_message_def process_message_body_def filtered_result_def
        failed_result_def split: prod.splits sum.splits)

lemma batch_loop_invariant:
  "batch_loop orc ms rs (tally rs) w = (rs', counts', w') \<Longrightarrow>
   counts' = tally rs' \<and> map message_id rs' = map message_id rs @ map mid ms"
proof (induction ms arbitrary: rs w)
  case Nil
  then show ?case by auto
next
  case (Cons m ms)
  obtain res m1 w1 where pm: "process_message orc m w = (res, m1, w1)"
    by (metis prod_cases3)
  have "batch_loop orc ms (rs @ [res]) (tally (rs @ [res])) w1 = (rs', counts', w')"
    using Cons.prems pm by (simp add: tally_snoc)
  from Cons.IH [OF this] show ?case
    using process_message_id [of orc m w] pm by simp
qed

lemma batch_loop_step:
  "batch_loop orc ms (r0 # rs) counts w
     = (case batch_loop orc ms rs counts w of (rs', c', w') \<Rightarrow> (r0 # rs', c', w'))"
  by (induction ms arbitrary: rs counts w) (auto split: prod.splits)


lemma batch_loop_counts:
  "fst (batch_loop orc ms rs c w) = fst (batch_loop orc ms rs c' w)"
  by (induction ms arbitrary: rs c c' w) (auto split: prod.splits)

lemma results_process_batch:
  "results (fst (process_batch orc ms w)) = fst (batch_loop orc ms [] (0, 0, 0) w)"
  by (simp add: process_batch_def split: prod.splits)

lemma process_batch_Cons:
  "results (fst (process_batch orc (m # ms) w))
     = fst (process_message orc m w)
       # results (fst (process_batch orc ms (snd (snd (process_message orc m w)))))"
proof -
  obtain res m1 w1 where pm: "process_message orc m w = (res, m1, w1)"
    by (metis prod_cases3)
  have "fst (batch_loop orc (m # ms) [] (0, 0, 0) w)
          = fst (batch_loop orc ms [res] (count_result res (0, 0, 0)) w1)"
    using pm by simp
  also have "\<dots> = fst (batch_loop orc ms [res] (0, 0, 0) w1)"
    by (rule batch_loop_counts)
  also have "\<dots> = res # fst (batch_loop orc ms [] (0, 0, 0) w1)"
    by (simp add: batch_loop_step split: prod.splits)
  finally show ?thesis
    using pm by (simp add: results_process_batch)
qed

lemma process_batch_tally:
  assumes "process_batch orc msgs w = (b, w')"
  shows "total_messages b = length msgs \<and> map message_id (results b) = map mid msgs
       \<and> processed b = length (filter is_processed (results b))
       \<and> failed b = length (filter is_failed (results b))
       \<and> skipped b = length (filter is_skipped (results b))"
proof -
  obtain rs p f s w1 where bl: "batch_loop orc msgs [] (0, 0, 0) w = (rs, (p, f, s), w1)"
    by (metis prod_cases3)
  have t0: "tally [] = (0, 0, 0)" by (simp add: tally_def)
  have "(p, f, s) = tally rs \<and> map message_id rs = map message_id [] @ map mid msgs"
    using batch_loop_invariant [of orc msgs "[]" w rs "(p, f, s)" w1] bl t0 by simp
  then show ?thesis
    using assms bl by (auto simp: process_batch_def tally_def)
qed

lemma classes_partition:
  "length (filter is_processed rs) + length (filter is_skipped rs) + length (filter is_failed rs)
     = length rs"
  by (induction rs) (auto simp: is_processed_def is_skipped_def is_failed_def)


lemma success_rate_of_counts:
  "get_success_rate b
     = (if total_messages b = 0 then 0
        else of_nat (processed b) / of_nat (total_messages b) * 100)"
  by (simp add: get_success_rate_def)

lemmas message_eval =
  should_process_def keyword_checks_def keyword_score_def any_domain_in_def str_in_def
  sublist_code(3) new_PreFilter_def or_default_def sample_orchestrator_def
  email_def get_text_content_def newline_def ascii_lower_def ascii_lower_char_def Let_def

lemma sample_spam_filtered: "\<not> should_process (pre_filter sample_orchestrator) sample_spam"
  by (simp add: message_eval sample_spam_def)

lemma sample_broken_passes: "should_process (pre_filter sample_orchestrator) sample_broken"
  by (simp add: message_eval sample_broken_def)

lemma sample_chase_passes: "should_process (pre_filter sample_orchestrator) sample_chase"
  by (simp add: message_eval sample_chase_def)

lemma sample_classify:
  "classify_message (orc_llm sample_orchestrator) sample_broken
     = Inl (BackendError, ''model unavailable'')"
  "classify_message (orc_llm sample_orchestrator) sample_chase = Inr sample_classification"
  by (simp_all add: sample_orchestrator_def sample_llm_def sample_broken_def sample_chase_def)

lemma sample_spam_result:
  "process_message sample_orchestrator sample_spam w = (filtered_result sample_spam, sample_spam, w)"
  using sample_spam_filtered by (simp add: process_message_def process_message_body_def)

lemma sample_chase_result:
  "process_message sample_orchestrator sample_chase w
     = (\<lparr> message_id = ''m3'', pr_success = True,
          classification = Some sample_classification,
          extracted_entities = Some sample_entities,
          actions_taken = [], pr_error_message = None \<rparr>,
        sample_chase\<lparr>processing_status := PROCESSED\<rparr>, w)"
proof -
  have a: "classification_should_process sample_classification"
    by (simp add: classification_should_process_def sample_classification_def)
  have b: "extract_entities (orc_llm sample_orchestrator) sample_chase sample_classification
             = Inr sample_entities"
    "determine_action (orc_llm sample_orchestrator) sample_chase sample_classification
        sample_entities None = Inr (sample_action IGNORE None)"
    by (simp_all add: sample_orchestrator_def sample_llm_def)
  have c: "match_case sample_entities w = (Inr None, w)"
    by (simp add: match_case_def sample_entities_def truthy_opt_def)
  have d: "execute_step (orc_llm sample_orchestrator)
             (associate (sample_action IGNORE None) None) w = (Inr [], w)"
    by (simp add: execute_step_def associate_def sample_action_def)
  have e: "mid sample_chase = ''m3''"
    by (simp add: sample_chase_def)
  show ?thesis
    using sample_chase_passes sample_classify(2) a b c d e
    by (simp add: process_message_def process_message_body_def)
qed


text \<open>
  C6. An exception raised by a stage after the pre-filter (classification, extraction,
  case matching, the decision, routing and execution) makes \<open>process_message\<close> return a
  result with \<open>success\<close> false and the text of the exception, with the message marked
  failed; it raises nothing. \<open>process_batch\<close> gives one result per message in input
  order, the first being that of the first message and the rest those of the remaining
  messages processed in the world the first one left, whatever the first result was.
  Its counters are the numbers of results of each class: processed (successful with a
  classification that should be processed), skipped (successful otherwise) and failed;
  they add up to the number of messages, and the success rate is
  processed / total \<times> 100 (0 for an empty batch).
\<close>

theorem batch_isolates_failures:
  "(should_process (pre_filter orc) m \<and> classify_message (orc_llm orc) m = Inl e \<longrightarrow>
      process_message orc m w = (failed_result m e, m\<lparr>processing_status := FAILED\<rparr>, w))
   \<and> (should_process (pre_filter orc) m \<and> classify_message (orc_llm orc) m = Inr cl
        \<and> classification_should_process cl \<longrightarrow>
        (extract_entities (orc_llm orc) m cl = Inl e \<longrightarrow>
           process_message orc m w = (failed_result m e, m\<lparr>processing_status := FAILED\<rparr>, w))
        \<and> (\<forall>en. extract_entities (orc_llm orc) m cl = Inr en \<longrightarrow>
             (\<forall>w1. match_case en w = (Inl e, w1) \<longrightarrow>
                process_message orc m w
                  = (failed_result m e, m\<lparr>processing_status := FAILED\<rparr>, w1))
             \<and> (\<forall>ex w1. match_case en w = (Inr ex, w1) \<longrightarrow>
                  (determine_action (orc_llm orc) m cl en ex = Inl e \<longrightarrow>
                     process_message orc m w
                       = (failed_result m e, m\<lparr>processing_status := FAILED\<rparr>, w1))
                  \<and> (\<forall>a w2. determine_action (orc_llm orc) m cl en ex = Inr a
                        \<and> execute_step (orc_llm orc) (associate a ex) w1 = (Inl e, w2) \<longrightarrow>
                        process_message orc m w
                          = (failed_result m e, m\<lparr>processing_status := FAILED\<rparr>, w2)))))
   \<and> \<not> pr_success (failed_result m e)
   \<and> pr_error_message (failed_result m e) = Some (str_of_exn e)
   \<and> results (fst (process_batch orc (m # ms) w))
       = fst (process_message orc m w)
         # results (fst (process_batch orc ms (snd (snd (process_message orc m w)))))
   \<and> total_messages (fst (process_batch orc msgs w)) = length msgs
   \<and> map message_id (results (fst (process_batch orc msgs w))) = map mid msgs
   \<and> processed (fst (process_batch orc msgs w))
       = length (filter is_processed (results (fst (process_batch orc msgs w))))
   \<and> skipped (fst (process_batch orc msgs w))
       = length (filter is_skipped (results (fst (process_batch orc msgs w))))
   \<and> failed (fst (process_batch orc msgs w))
       = length (filter is_failed (results (fst (process_batch orc msgs w))))
   \<and> processed (fst (process_batch orc msgs w)) + skipped (fst (process_batch orc msgs w))
       + failed (fst (process_batch orc msgs w)) = length msgs
   \<and> get_success_rate (fst (process_batch orc msgs w))
       = (if msgs = [] then 0
          else of_nat (processed (fst (process_batch orc msgs w))) / of_nat (length msgs) * 100)"
proof -
  have stages:
    "(should_process (pre_filter orc) m \<and> classify_message (orc_llm orc) m = Inl e \<longrightarrow>
      process_message orc m w = (failed_result m e, m\<lparr>processing_status := FAILED\<rparr>, w))
   \<and> (should_process (pre_filter orc) m \<and> classify_message (orc_llm orc) m = Inr cl
        \<and> classification_should_process cl \<longrightarrow>
        (extract_entities (orc_llm orc) m cl = Inl e \<longrightarrow>
           process_message orc m w = (failed_result m e, m\<lparr>processing_status := FAILED\<rparr>, w))
        \<and> (\<forall>en. extract_entities (orc_llm orc) m cl = Inr en \<longrightarrow>
             (\<forall>w1. match_case en w = (Inl e, w1) \<longrightarrow>
                process_message orc m w
                  = (failed_result m e, m\<lparr>processing_status := FAILED\<rparr>, w1))
             \<and> (\<forall>ex w1. match_case en w = (Inr ex, w1) \<longrightarrow>
                  (determine_action (orc_llm orc) m cl en ex = Inl e \<longrightarrow>
                     process_message orc m w
                       = (failed_result m e, m\<lparr>processing_status := FAILED\<rparr>, w1))
                  \<and> (\<forall>a w2. determine_action (orc_llm orc) m cl en ex = Inr a
                        \<and> execute_step (orc_llm orc) (associate a ex) w1 = (Inl e, w2) \<longrightarrow>
                        process_message orc m w
                          = (failed_result m e, m\<lparr>processing_status := FAILED\<rparr>, w2)))))"
    by (simp add: process_message_def process_message_body_def)
  have res: "\<not> pr_success (failed_result m e)"
    "pr_error_message (failed_result m e) = Some (str_of_exn e)"
    by (simp_all add: failed_result_def)
  obtain b w' where pb: "process_batch orc msgs w = (b, w')"
    by (metis surj_pair)
  note t = process_batch_tally [OF pb]
  have len: "length (results b) = length msgs"
    using t by (metis length_map)
  have part: "processed b + skipped b + failed b = length msgs"
    using t classes_partition [of "results b"] len by simp
  have rate: "get_success_rate b
       = (if msgs = [] then 0 else of_nat (processed b) / of_nat (length msgs) * 100)"
    using t by (simp add: success_rate_of_counts)
  have fb: "fst (process_batch orc msgs w) = b"
    using pb by simp
  have batch:
    "total_messages b = length msgs
     \<and> map message_id (results b) = map mid msgs
     \<and> processed b = length (filter is_processed (results b))
     \<and> skipped b = length (filter is_skipped (results b))
     \<and> failed b = length (filter is_failed (results b))
     \<and> processed b + skipped b + failed b = length msgs
     \<and> get_success_rate b
         = (if msgs = [] then 0 else of_nat (processed b) / of_nat (length msgs) * 100)"
    using t part rate by simp
  show ?thesis
    unfolding fb
    apply (rule conjI, rule stages [THEN conjunct1])
    apply (rule conjI, rule stages [THEN conjunct2])
    apply (rule conjI, rule res(1))
    apply (rule conjI, rule res(2))
    apply (rule conjI, rule process_batch_Cons)
    apply (rule batch)
    done
qed


theorem batch_isolates_failures_witness:
  "should_process (pre_filter sample_orchestrator) sample_broken
   \<and> classify_message (orc_llm sample_orchestrator) sample_broken
       = Inl (BackendError, ''model unavailable'')
   \<and> process_message sample_orchestrator sample_broken (sample_world sample_case)
       = (failed_result sample_broken (BackendError, ''model unavailable''),
          sample_broken\<lparr>processing_status := FAILED\<rparr>, sample_world sample_case)
   \<and> pr_error_message (failed_result sample_broken (BackendError, ''model unavailable''))
       = Some ''model unavailable''
   \<and> results (fst (process_batch sample_orchestrator sample_batch (sample_world sample_case)))
       = [filtered_result sample_spam,
          failed_result sample_broken (BackendError, ''model unavailable''),
          \<lparr> message_id = ''m3'', pr_success = True,
            classification = Some sample_classification,
            extracted_entities = Some sample_entities,
            actions_taken = [], pr_error_message = None \<rparr>]
   \<and> processed (fst (process_batch sample_orchestrator sample_batch
                        (sample_world sample_case))) = 1
   \<and> skipped (fst (process_batch sample_orchestrator sample_batch
                      (sample_world sample_case))) = 1
   \<and> failed (fst (process_batch sample_orchestrator sample_batch
                     (sample_world sample_case))) = 1
   \<and> get_success_rate (fst (process_batch sample_orchestrator sample_batch
                               (sample_world sample_case))) = 100 / 3
   \<and> get_success_rate \<lparr> total_messages = 10, processed = 7, failed = 1, skipped = 2,
                          results = [] \<rparr> = 70"
proof -
  let ?w = "sample_world sample_case"
  let ?e = "(BackendError, ''model unavailable'')"
  let ?b = "fst (process_batch sample_orchestrator sample_batch ?w)"
  let ?r3 = "\<lparr> message_id = ''m3'', pr_success = True,
            classification = Some sample_classification,
            extracted_entities = Some sample_entities,
            actions_taken = [], pr_error_message = None \<rparr>"
  note t = batch_isolates_failures
             [of sample_orchestrator sample_broken ?e ?w sample_classification "[]" sample_batch]
  have f: "process_message sample_orchestrator sample_broken ?w
             = (failed_result sample_broken ?e, sample_broken\<lparr>processing_status := FAILED\<rparr>, ?w)"
    using t [THEN conjunct1] sample_broken_passes sample_classify(1) by simp
  have m: "pr_error_message (failed_result sample_broken ?e) = Some ''model unavailable''"
    using t [THEN conjunct2, THEN conjunct2, THEN conjunct2, THEN conjunct1]
    by (simp add: str_of_exn_def)
  have rs: "results ?b = [filtered_result sample_spam, failed_result sample_broken ?e, ?r3]"
    using f by (simp add: results_process_batch sample_batch_def sample_spam_result
                  sample_chase_result)
  have cl: "is_skipped (filtered_result sample_spam)" "\<not> is_processed (filtered_result sample_spam)"
    "\<not> is_failed (filtered_result sample_spam)"
    "is_failed (failed_result sample_broken ?e)" "\<not> is_processed (failed_result sample_broken ?e)"
    "\<not> is_skipped (failed_result sample_broken ?e)"
    "is_processed ?r3" "\<not> is_skipped ?r3" "\<not> is_failed ?r3"
    by (simp_all add: is_skipped_def is_processed_def is_failed_def relevant_result_def
          filtered_result_def failed_result_def classification_should_process_def
          sample_classification_def)
  note u = t [THEN conjunct2, THEN conjunct2, THEN conjunct2, THEN conjunct2, THEN conjunct2]
  have n: "processed ?b = 1" "skipped ?b = 1" "failed ?b = 1"
    using u rs cl by simp_all
  have r: "get_success_rate ?b = 100 / 3"
    using u n by (simp add: sample_batch_def)
  have s: "get_success_rate \<lparr> total_messages = 10, processed = 7, failed = 1, skipped = 2,
                          results = [] \<rparr> = 70"
    by (simp add: get_success_rate_def)
  show ?thesis
    using sample_broken_passes sample_classify(1) f m rs n r s by simp
qed

section \<open>Relevance of admin and irrelevant classifications\<close>

text \<open>
  The heuristic fallback, the parsing path and the classification the orchestrator
  writes for a filtered message all keep the rule.
\<close>

lemma heuristic_keeps_rule:
  "heuristic_classification lower_fn text why = Inr cl \<Longrightarrow> relevance_rule cl"
  by (auto simp: heuristic_classification_def new_Classification_def relevance_rule_def Let_def
      split: if_splits)

lemma parsing_path_keeps_rule:
  "classification_of_answer lower_fn cat conf why relevant text = Inr cl \<Longrightarrow> relevance_rule cl"
  by (cases cat)
     (auto simp: classification_of_answer_def new_Classification_def relevance_rule_def
        dest: heuristic_keeps_rule [unfolded relevance_rule_def] split: if_splits)

lemma pre_filter_synthesis_keeps_rule:
  "classification (filtered_result m) = Some cl \<Longrightarrow> relevance_rule cl"
  by (auto simp: filtered_result_def relevance_rule_def)

text \<open>
  C4. The rule that a classification of category admin or irrelevant is not relevant
  fails for the mock service: for a message whose metadata expects the category
  \<open>ADMIN\<close> it returns an admin classification with \<open>is_relevant\<close> true, which
  \<open>should_process\<close> accepts. The constructor, called without \<open>is_relevant\<close>, builds such
  a value as well.
\<close>

theorem mock_classifies_admin_as_relevant:
  "mock_classify_message sample_admin_message
     = Inr \<lparr> category = ADMIN, cl_confidence = 1,
             reasoning = ''Mock classification: Message categorized as ADMIN'',
             is_relevant = True \<rparr>
   \<and> \<not> relevance_rule \<lparr> category = ADMIN, cl_confidence = 1,
             reasoning = ''Mock classification: Message categorized as ADMIN'',
             is_relevant = True \<rparr>
   \<and> classification_should_process \<lparr> category = ADMIN, cl_confidence = 1,
             reasoning = ''Mock classification: Message categorized as ADMIN'',
             is_relevant = True \<rparr>
   \<and> new_Classification ADMIN 1 ''direct'' None
       = Inr \<lparr> category = ADMIN, cl_confidence = 1, reasoning = ''direct'',
               is_relevant = True \<rparr>"
  by (simp add: mock_classify_message_def sample_admin_message_def email_def dict_get_def
        parse_MessageCategory_def all_categories_def new_Classification_def
        relevance_rule_def classification_should_process_def)

end
